theory Spec2Isabelle
  imports Complex_Main "HOL-Library.Word"
begin

unbundle bit_operations_syntax

section \<open>Go values\<close>

text \<open>
  A Go \<open>string\<close> and a \<open>[]byte\<close> are byte sequences. A \<open>float64\<close> is its IEEE 754
  binary64 bit pattern (what \<open>math.Float64bits\<close> returns): one sign bit, eleven
  exponent bits, fifty-two fraction bits. A Go \<open>int\<close> is a 64-bit two's complement
  integer, read with \<open>sint\<close>.
\<close>

type_synonym bytes = string
type_synonym float64 = "64 word"
type_synonym go_int = "64 word"

definition signbit :: "float64 \<Rightarrow> bool" where
  "signbit f = bit f 63"

definition exponent :: "float64 \<Rightarrow> nat" where
  "exponent f = unat (drop_bit 52 f AND 0x7FF)"

definition fraction :: "float64 \<Rightarrow> nat" where
  "fraction f = unat (f AND 0xFFFFFFFFFFFFF)"

text \<open>\<open>math.IsNaN\<close> and \<open>math.IsInf(f, 0)\<close>.\<close>

definition IsNaN :: "float64 \<Rightarrow> bool" where
  "IsNaN f \<longleftrightarrow> exponent f = 2047 \<and> fraction f \<noteq> 0"

definition IsInf :: "float64 \<Rightarrow> bool" where
  "IsInf f \<longleftrightarrow> exponent f = 2047 \<and> fraction f = 0"

definition finite64 :: "float64 \<Rightarrow> bool" where
  "finite64 f \<longleftrightarrow> \<not> IsInf f \<and> \<not> IsNaN f"

text \<open>
  The magnitude of a finite \<open>float64\<close> is a whole number of units, the unit being the
  smallest positive \<open>float64\<close>, 2 to the power -1074; the number 1 is \<open>unity\<close> units.
  \<open>valof\<close> is the real number a finite \<open>float64\<close> stands for.
\<close>

definition units :: "float64 \<Rightarrow> nat" where
  "units f =
     (if exponent f = 0 then fraction f else (2 ^ 52 + fraction f) * 2 ^ (exponent f - 1))"

definition unity :: nat where
  "unity = 2 ^ 1074"

definition magnitude :: "float64 \<Rightarrow> real" where
  "magnitude f = real (units f) / real unity"

definition valof :: "float64 \<Rightarrow> real" where
  "valof f = (if signbit f then - magnitude f else magnitude f)"

text \<open>
  A decimal constant of the source denotes the \<open>float64\<close> nearest to it. \<open>denotes q f\<close>
  checks a bit pattern against the decimal \<open>q\<close>: \<open>f\<close> is finite and closer to \<open>q\<close>
  than the bit patterns next to it.
\<close>

definition denotes :: "real \<Rightarrow> float64 \<Rightarrow> bool" where
  "denotes q f \<longleftrightarrow>
     finite64 f \<and> finite64 (f - 1) \<and> finite64 (f + 1) \<and>
     \<bar>valof f - q\<bar> < \<bar>valof (f - 1) - q\<bar> \<and>
     \<bar>valof f - q\<bar> < \<bar>valof (f + 1) - q\<bar>"

subsection \<open>Multiplication and division\<close>

text \<open>
  The product and the quotient of two \<open>float64\<close> values as IEEE 754 defines them, which
  is what \<open>*\<close> and \<open>/\<close> are in Go: the exact result rounded to the nearest \<open>float64\<close>,
  a tie going to the even one, and to infinity beyond the largest. \<open>rne n d\<close> is the
  integer nearest to \<open>n / d\<close>. \<open>roundBits n d\<close> is the bit pattern of the \<open>float64\<close>
  nearest to \<open>n / d\<close> units: with \<open>t\<close> above zero only when \<open>n / d\<close> has more than 53
  bits, the result is \<open>rne n (d * 2 ^ t)\<close> steps of \<open>2 ^ t\<close> units, and the bit pattern
  \<open>t * 2 ^ 52 + m\<close> stands for \<open>m * 2 ^ t\<close> units. A pattern from \<open>0x7FF0000000000000\<close> on
  is beyond the largest \<open>float64\<close>. Where the result is not a number, \<open>NaN\<close> stands for
  whichever of the NaN patterns the processor gives.
\<close>

definition rne :: "nat \<Rightarrow> nat \<Rightarrow> nat" where
  "rne n d =
     (let q = n div d; r = n mod d
      in if 2 * r < d \<or> (2 * r = d \<and> even q) then q else q + 1)"

fun bitlen :: "nat \<Rightarrow> nat" where
  "bitlen n = (if n = 0 then 0 else Suc (bitlen (n div 2)))"

declare bitlen.simps [simp del]

definition roundBits :: "nat \<Rightarrow> nat \<Rightarrow> nat" where
  "roundBits n d = (let t = bitlen (n div d) - 53 in t * 2 ^ 52 + rne n (d * 2 ^ t))"

definition Infinity :: float64 where
  "Infinity = 0x7FF0000000000000"

definition NaN :: float64 where
  "NaN = 0x7FF8000000000001"

definition withSign :: "bool \<Rightarrow> float64 \<Rightarrow> float64" where
  "withSign neg f = (if neg then f OR 0x8000000000000000 else f)"

definition fround :: "bool \<Rightarrow> nat \<Rightarrow> nat \<Rightarrow> float64" where
  "fround neg n d =
     withSign neg (if roundBits n d < 0x7FF0000000000000 then of_nat (roundBits n d) else Infinity)"

definition FloatMul :: "float64 \<Rightarrow> float64 \<Rightarrow> float64" where
  "FloatMul x y =
     (if IsNaN x \<or> IsNaN y then NaN
      else if IsInf x \<or> IsInf y then
        (if units x = 0 \<or> units y = 0 then NaN else withSign (signbit x \<noteq> signbit y) Infinity)
      else fround (signbit x \<noteq> signbit y) (units x * units y) unity)"

definition FloatDiv :: "float64 \<Rightarrow> float64 \<Rightarrow> float64" where
  "FloatDiv x y =
     (if IsNaN x \<or> IsNaN y then NaN
      else if IsInf x then (if IsInf y then NaN else withSign (signbit x \<noteq> signbit y) Infinity)
      else if IsInf y then withSign (signbit x \<noteq> signbit y) 0
      else if units y = 0 then
        (if units x = 0 then NaN else withSign (signbit x \<noteq> signbit y) Infinity)
      else fround (signbit x \<noteq> signbit y) (units x * unity) (units y))"

subsection \<open>Decimal integers\<close>

text \<open>\<open>strconv.AppendInt(b, i, 10)\<close>, which \<open>%d\<close> and the JSON encoder both use.\<close>

definition digit :: "nat \<Rightarrow> char" where
  "digit d = char_of (48 + d)"

fun showNat :: "nat \<Rightarrow> string" where
  "showNat n = (if n < 10 then [digit n] else showNat (n div 10) @ [digit (n mod 10)])"

declare showNat.simps [simp del]

definition showInt :: "int \<Rightarrow> string" where
  "showInt i = (if i < 0 then CHR ''-'' # showNat (nat (- i)) else showNat (nat i))"

subsection \<open>Errors\<close>

text \<open>
  A Go \<open>error\<close> is a value with a message. The constructors are the error types that
  occur: the two of \<open>encoding/json\<close> that the struct codec raises, an error of another
  library call known by its message only, and the two results of \<open>fmt.Errorf\<close>, with
  \<open>%w\<close> (the message and the wrapped error) and without.
\<close>

datatype error =
    UnsupportedValueError string
  | UnmarshalTypeError string string
  | LibraryError string
  | wrapError string error
  | errorString string

fun error_message :: "error \<Rightarrow> string" where
  "error_message (UnsupportedValueError s) = ''json: unsupported value: '' @ s"
| "error_message (UnmarshalTypeError v t) =
     ''json: cannot unmarshal '' @ v @ '' into Go value of type '' @ t"
| "error_message (LibraryError s) = s"
| "error_message (wrapError s e) = s"
| "error_message (errorString s) = s"

text \<open>\<open>fmt.Errorf(prefix + "%w", err)\<close>.\<close>

definition Errorf_w :: "string \<Rightarrow> error \<Rightarrow> error" where
  "Errorf_w prefix err = wrapError (prefix @ error_message err) err"

section \<open>Data model\<close>

text \<open>The response structs of \<open>client.go\<close>. A slice is \<open>None\<close> when it is nil.\<close>

record Point3D =
  X :: float64
  Y :: float64
  Z :: float64

record Dimensions =
  Length :: float64
  Width :: float64
  Height :: float64

record PlacedCarton =
  CartonID :: string
  Position :: Point3D
  Dimensions :: Dimensions
  Orientation :: string
  Weight :: float64
  Layer :: go_int

record Pallet =
  PalletID :: go_int
  TotalWeight :: float64
  TotalHeight :: float64
  UtilizationPercentage :: float64
  Cartons :: "PlacedCarton list option"
  CenterOfGravity :: Point3D

record PackingSummary =
  TotalPallets :: go_int
  TotalCartonsPacked :: go_int
  AverageUtilization :: float64
  ComputationTimeMs :: go_int

record PackingResponse =
  Pallets :: "Pallet list option"
  Summary :: PackingSummary
  Error :: string

text \<open>The request structs.\<close>

record Carton =
  ID :: string
  Length :: float64
  Width :: float64
  Height :: float64
  Weight :: float64
  Quantity :: go_int
  Fragile :: bool
  AllowRotation :: bool

record PackingConstraints =
  MaxLength :: float64
  MaxWidth :: float64
  MaxHeight :: float64
  MaxWeight :: float64

record PackingOptions =
  SupportPercentage :: float64

record PackingRequest =
  Cartons :: "Carton list option"
  PackingConstraints :: PackingConstraints
  PackingOptions :: PackingOptions

text \<open>The preset builders; each constant is the bit pattern of the source's decimal.\<close>

definition StandardPallet :: PackingConstraints where
  "StandardPallet =
     \<lparr>MaxLength = 0x408FC00000000000,  \<comment> \<open>1016.0\<close>
      MaxWidth = 0x409C933333333333,   \<comment> \<open>1828.8\<close>
      MaxHeight = 0x40930CCCCCCCCCCD,  \<comment> \<open>1219.2\<close>
      MaxWeight = 0x4124C38800000000\<rparr>" \<comment> \<open>680388.0\<close>

definition StandardPallet4048 :: PackingConstraints where
  "StandardPallet4048 =
     \<lparr>MaxLength = 0x408FC00000000000,  \<comment> \<open>1016.0\<close>
      MaxWidth = 0x40930CCCCCCCCCCD,   \<comment> \<open>1219.2\<close>
      MaxHeight = 0x40930CCCCCCCCCCD,  \<comment> \<open>1219.2\<close>
      MaxWeight = 0x4124C38800000000\<rparr>" \<comment> \<open>680388.0\<close>

text \<open>
  The conversion helpers. Their factors are the \<open>float64\<close> values that the decimals
  25.4 and 453.592 of the source denote.
\<close>

definition mmPerInch :: float64 where
  "mmPerInch = 0x4039666666666666" \<comment> \<open>25.4\<close>

definition gramsPerPound :: float64 where
  "gramsPerPound = 0x407C5978D4FDF3B6" \<comment> \<open>453.592\<close>

definition InchesToMM :: "float64 \<Rightarrow> float64" where
  "InchesToMM inches = FloatMul inches mmPerInch"

definition PoundsToGrams :: "float64 \<Rightarrow> float64" where
  "PoundsToGrams pounds = FloatMul pounds gramsPerPound"

definition MMToInches :: "float64 \<Rightarrow> float64" where
  "MMToInches mm = FloatDiv mm mmPerInch"

definition GramsToPounds :: "float64 \<Rightarrow> float64" where
  "GramsToPounds grams = FloatDiv grams gramsPerPound"

section \<open>JSON documents\<close>

text \<open>
  The syntax tree of a JSON document. A number keeps its literal text, as the decoder of
  \<open>encoding/json\<close> does; an object keeps its members in document order.
\<close>

datatype json =
    JNull
  | JBool bool
  | JNumber string
  | JString string
  | JArray "json list"
  | JObject "(string \<times> json) list"

subsection \<open>The library and the world\<close>

text \<open>
  What \<open>Pack\<close> calls and does not define is a parameter: the text layer of
  \<open>encoding/json\<close> (the literal of a finite \<open>float64\<close> and its reading, the text of a
  document and its scanning, the folding of member names), the decoding of a response
  body into a \<open>PackingResponse\<close>, the check of \<open>http.NewRequestWithContext\<close> and
  the round trip of \<open>http.Client.Do\<close>. A response holds its status code and what
  \<open>io.ReadAll\<close> gets from its body: all the bytes, or an error.
\<close>

record http_Client =
  Timeout :: int

record Client =
  baseURL :: string
  httpClient :: http_Client

record Response =
  StatusCode :: go_int
  Body :: "error + bytes"

record 'ctx Request =
  Method :: string
  URL :: string
  Header :: "string \<rightharpoonup> string list"
  Body :: bytes
  Ctx :: 'ctx

record 'ctx env =
  formatFloat :: "float64 \<Rightarrow> string"
  parseFloat :: "string \<Rightarrow> error + float64"
  writeJSON :: "json \<Rightarrow> bytes"
  readJSON :: "bytes \<Rightarrow> error + json"
  foldName :: "string \<Rightarrow> string"
  UnmarshalResponse :: "bytes \<Rightarrow> error + PackingResponse"
  newRequestError :: "'ctx \<Rightarrow> string \<Rightarrow> string \<Rightarrow> error option"
  roundTrip :: "http_Client \<Rightarrow> 'ctx Request \<Rightarrow> error + Response"

subsection \<open>Strings on the wire\<close>

text \<open>
  The encoder writes a string coerced to valid UTF-8: every byte that does not start a
  well-formed sequence becomes U+FFFD, which reads back as the bytes EF BF BD.
  \<open>runeLen s\<close> is the width of the sequence at the head of \<open>s\<close> as
  \<open>utf8.DecodeRuneInString\<close> accepts it, and 0 where it returns \<open>RuneError\<close>.
\<close>

definition between :: "nat \<Rightarrow> nat \<Rightarrow> char \<Rightarrow> bool" where
  "between lo hi c \<longleftrightarrow> lo \<le> of_char c \<and> of_char c \<le> (hi::nat)"

fun runeLen :: "string \<Rightarrow> nat" where
  "runeLen [] = 0"
| "runeLen (c # cs) =
     (if between 0x00 0x7F c then 1
      else if between 0xC2 0xDF c then
        (case cs of c1 # _ \<Rightarrow> if between 0x80 0xBF c1 then 2 else 0 | _ \<Rightarrow> 0)
      else if between 0xE0 0xEF c then
        (case cs of
           c1 # c2 # _ \<Rightarrow>
             if between (if of_char c = (0xE0::nat) then 0xA0 else 0x80)
                  (if of_char c = (0xED::nat) then 0x9F else 0xBF) c1
                \<and> between 0x80 0xBF c2
             then 3 else 0
         | _ \<Rightarrow> 0)
      else if between 0xF0 0xF4 c then
        (case cs of
           c1 # c2 # c3 # _ \<Rightarrow>
             if between (if of_char c = (0xF0::nat) then 0x90 else 0x80)
                  (if of_char c = (0xF4::nat) then 0x8F else 0xBF) c1
                \<and> between 0x80 0xBF c2 \<and> between 0x80 0xBF c3
             then 4 else 0
         | _ \<Rightarrow> 0)
      else 0)"

declare runeLen.simps [simp del]

definition replacement :: string where
  "replacement = [char_of (0xEF::nat), char_of (0xBF::nat), char_of (0xBD::nat)]"

function toValidUTF8 :: "string \<Rightarrow> string" where
  "toValidUTF8 [] = []"
| "toValidUTF8 (c # cs) =
     (if runeLen (c # cs) = 0 then replacement @ toValidUTF8 cs
      else take (runeLen (c # cs)) (c # cs) @ toValidUTF8 (drop (runeLen (c # cs)) (c # cs)))"
  by pat_completeness auto
termination
  by (relation "measure length") auto

text \<open>\<open>utf8.ValidString\<close>.\<close>

function ValidString :: "string \<Rightarrow> bool" where
  "ValidString [] = True"
| "ValidString (c # cs) =
     (if runeLen (c # cs) = 0 then False
      else ValidString (drop (runeLen (c # cs)) (c # cs)))"
  by pat_completeness auto
termination
  by (relation "measure length") auto

section \<open>Serialising a request\<close>

text \<open>
  \<open>json.Marshal\<close> on the request structs: one encoder for each kind of field, a
  struct as the object of its tagged fields in declaration order, a nil slice as
  \<open>null\<close>, a nil pointer as \<open>null\<close>. The only value these structs can hold that the
  encoder refuses is a \<open>float64\<close> that is infinite or not a number; the text in its
  error is what \<open>strconv.FormatFloat\<close> writes for such a value.
\<close>

definition specialText :: "float64 \<Rightarrow> string" where
  "specialText f = (if IsNaN f then ''NaN'' else if signbit f then ''-Inf'' else ''+Inf'')"

definition floatEncoder :: "('ctx, 'z) env_scheme \<Rightarrow> float64 \<Rightarrow> error + json" where
  "floatEncoder env f =
     (if IsInf f \<or> IsNaN f then Inl (UnsupportedValueError (specialText f))
      else Inr (JNumber (formatFloat env f)))"

definition intEncoder :: "go_int \<Rightarrow> error + json" where
  "intEncoder i = Inr (JNumber (showInt (sint i)))"

definition boolEncoder :: "bool \<Rightarrow> error + json" where
  "boolEncoder b = Inr (JBool b)"

definition stringEncoder :: "string \<Rightarrow> error + json" where
  "stringEncoder s = Inr (JString (toValidUTF8 s))"

fun members :: "(string \<times> (error + json)) list \<Rightarrow> error + (string \<times> json) list" where
  "members [] = Inr []"
| "members ((k, Inl e) # rest) = Inl e"
| "members ((k, Inr j) # rest) =
     (case members rest of Inl e \<Rightarrow> Inl e | Inr js \<Rightarrow> Inr ((k, j) # js))"

definition structEncoder :: "(string \<times> (error + json)) list \<Rightarrow> error + json" where
  "structEncoder fs = (case members fs of Inl e \<Rightarrow> Inl e | Inr js \<Rightarrow> Inr (JObject js))"

fun elements :: "(error + json) list \<Rightarrow> error + json list" where
  "elements [] = Inr []"
| "elements (Inl e # rest) = Inl e"
| "elements (Inr j # rest) =
     (case elements rest of Inl e \<Rightarrow> Inl e | Inr js \<Rightarrow> Inr (j # js))"

definition sliceEncoder :: "('a \<Rightarrow> error + json) \<Rightarrow> 'a list option \<Rightarrow> error + json" where
  "sliceEncoder enc xs =
     (case xs of
        None \<Rightarrow> Inr JNull
      | Some ys \<Rightarrow> (case elements (map enc ys) of Inl e \<Rightarrow> Inl e | Inr js \<Rightarrow> Inr (JArray js)))"

definition encodeCarton :: "('ctx, 'z) env_scheme \<Rightarrow> Carton \<Rightarrow> error + json" where
  "encodeCarton env c =
     structEncoder
       [(''id'', stringEncoder (ID c)),
        (''length'', floatEncoder env (Length c)),
        (''width'', floatEncoder env (Width c)),
        (''height'', floatEncoder env (Height c)),
        (''weight'', floatEncoder env (Weight c)),
        (''quantity'', intEncoder (Quantity c)),
        (''fragile'', boolEncoder (Fragile c)),
        (''allow_rotation'', boolEncoder (AllowRotation c))]"

definition encodeConstraints :: "('ctx, 'z) env_scheme \<Rightarrow> PackingConstraints \<Rightarrow> error + json" where
  "encodeConstraints env p =
     structEncoder
       [(''max_length'', floatEncoder env (MaxLength p)),
        (''max_width'', floatEncoder env (MaxWidth p)),
        (''max_height'', floatEncoder env (MaxHeight p)),
        (''max_weight'', floatEncoder env (MaxWeight p))]"

definition encodeOptions :: "('ctx, 'z) env_scheme \<Rightarrow> PackingOptions \<Rightarrow> error + json" where
  "encodeOptions env p =
     structEncoder [(''support_percentage'', floatEncoder env (SupportPercentage p))]"

definition encodeRequest :: "('ctx, 'z) env_scheme \<Rightarrow> PackingRequest \<Rightarrow> error + json" where
  "encodeRequest env r =
     structEncoder
       [(''cartons'', sliceEncoder (encodeCarton env) (Cartons r)),
        (''packing_constraints'', encodeConstraints env (PackingConstraints r)),
        (''packing_options'', encodeOptions env (PackingOptions r))]"

definition Marshal :: "('ctx, 'z) env_scheme \<Rightarrow> PackingRequest option \<Rightarrow> error + bytes" where
  "Marshal env request =
     (case request of
        None \<Rightarrow> Inr (writeJSON env JNull)
      | Some r \<Rightarrow>
          (case encodeRequest env r of Inl e \<Rightarrow> Inl e | Inr j \<Rightarrow> Inr (writeJSON env j)))"

section \<open>Deserialising a request\<close>

text \<open>
  \<open>json.Unmarshal\<close> into a \<open>PackingRequest\<close>, which the mock server of
  \<open>client_test.go\<close> runs on the body it receives. An integer field reads its literal
  with \<open>strconv.ParseInt(s, 10, 64)\<close>: an optional sign, then decimal digits, within
  the range of a 64-bit integer.
\<close>

definition isDigit :: "char \<Rightarrow> bool" where
  "isDigit c \<longleftrightarrow> (48::nat) \<le> of_char c \<and> of_char c \<le> (57::nat)"

definition readNat :: "string \<Rightarrow> nat" where
  "readNat ds = foldl (\<lambda>a c. 10 * a + (of_char c - 48)) 0 ds"

definition ParseInt :: "string \<Rightarrow> go_int option" where
  "ParseInt s =
     (let neg = (s \<noteq> [] \<and> hd s = CHR ''-'');
          ds = (if s \<noteq> [] \<and> (hd s = CHR ''-'' \<or> hd s = CHR ''+'') then tl s else s)
      in if ds = [] \<or> \<not> list_all isDigit ds then None
         else if neg then
           (if readNat ds \<le> 2 ^ 63 then Some (word_of_int (- int (readNat ds))) else None)
         else
           (if readNat ds < 2 ^ 63 then Some (word_of_nat (readNat ds)) else None))"

text \<open>
  A decoder takes the document and the current value of its target. \<open>null\<close> leaves a
  field of basic or struct type as it is and makes a slice nil; a value of another kind
  than the field's is an \<open>UnmarshalTypeError\<close> naming the kind found and the Go type
  (its message is given without the position that the library adds). A float field reads
  its literal with \<open>strconv.ParseFloat\<close>. The members of an object are stored in
  document order; a member that selects no field is skipped; an array is decoded element
  by element into fresh values.
\<close>

definition kind :: "json \<Rightarrow> string" where
  "kind j = (case j of JNull \<Rightarrow> ''null'' | JBool b \<Rightarrow> ''bool'' | JNumber s \<Rightarrow> ''number''
             | JString s \<Rightarrow> ''string'' | JArray xs \<Rightarrow> ''array'' | JObject ms \<Rightarrow> ''object'')"

definition floatDecoder :: "('ctx, 'z) env_scheme \<Rightarrow> json \<Rightarrow> float64 \<Rightarrow> error + float64" where
  "floatDecoder env j cur =
     (case j of
        JNull \<Rightarrow> Inr cur
      | JNumber s \<Rightarrow>
          (case parseFloat env s of
             Inl e \<Rightarrow> Inl (UnmarshalTypeError (''number '' @ s) ''float64'')
           | Inr f \<Rightarrow> Inr f)
      | _ \<Rightarrow> Inl (UnmarshalTypeError (kind j) ''float64''))"

definition intDecoder :: "json \<Rightarrow> go_int \<Rightarrow> error + go_int" where
  "intDecoder j cur =
     (case j of
        JNull \<Rightarrow> Inr cur
      | JNumber s \<Rightarrow>
          (case ParseInt s of
             None \<Rightarrow> Inl (UnmarshalTypeError (''number '' @ s) ''int'')
           | Some i \<Rightarrow> Inr i)
      | _ \<Rightarrow> Inl (UnmarshalTypeError (kind j) ''int''))"

definition boolDecoder :: "json \<Rightarrow> bool \<Rightarrow> error + bool" where
  "boolDecoder j cur =
     (case j of JNull \<Rightarrow> Inr cur | JBool b \<Rightarrow> Inr b
      | _ \<Rightarrow> Inl (UnmarshalTypeError (kind j) ''bool''))"

definition stringDecoder :: "json \<Rightarrow> string \<Rightarrow> error + string" where
  "stringDecoder j cur =
     (case j of JNull \<Rightarrow> Inr cur | JString s \<Rightarrow> Inr s
      | _ \<Rightarrow> Inl (UnmarshalTypeError (kind j) ''string''))"

text \<open>
  The field that a member name selects: the field with that tag, or else the first field
  whose tag folds to the same name.
\<close>

definition field :: "('ctx, 'z) env_scheme \<Rightarrow> string list \<Rightarrow> string \<Rightarrow> string option" where
  "field env tags k =
     (if k \<in> set tags then Some k
      else find (\<lambda>t. foldName env t = foldName env k) tags)"

text \<open>Setting a decoded value into a struct, or passing the error on.\<close>

definition into :: "error + 'a \<Rightarrow> ('a \<Rightarrow> 'b) \<Rightarrow> error + 'b" where
  "into r store = (case r of Inl e \<Rightarrow> Inl e | Inr x \<Rightarrow> Inr (store x))"

fun structDecoder :: "('s \<Rightarrow> string \<times> json \<Rightarrow> error + 's) \<Rightarrow> 's \<Rightarrow> (string \<times> json) list \<Rightarrow> error + 's" where
  "structDecoder member s [] = Inr s"
| "structDecoder member s (m # ms) =
     (case member s m of Inl e \<Rightarrow> Inl e | Inr s' \<Rightarrow> structDecoder member s' ms)"

definition cartonMember :: "('ctx, 'z) env_scheme \<Rightarrow> Carton \<Rightarrow> string \<times> json \<Rightarrow> error + Carton" where
  "cartonMember env c m =
     (case field env [''id'', ''length'', ''width'', ''height'', ''weight'', ''quantity'',
                      ''fragile'', ''allow_rotation''] (fst m) of
        None \<Rightarrow> Inr c
      | Some t \<Rightarrow>
          if t = ''id'' then into (stringDecoder (snd m) (ID c)) (\<lambda>x. c\<lparr>ID := x\<rparr>)
          else if t = ''length'' then into (floatDecoder env (snd m) (Length c)) (\<lambda>x. c\<lparr>Length := x\<rparr>)
          else if t = ''width'' then into (floatDecoder env (snd m) (Width c)) (\<lambda>x. c\<lparr>Width := x\<rparr>)
          else if t = ''height'' then into (floatDecoder env (snd m) (Height c)) (\<lambda>x. c\<lparr>Height := x\<rparr>)
          else if t = ''weight'' then into (floatDecoder env (snd m) (Weight c)) (\<lambda>x. c\<lparr>Weight := x\<rparr>)
          else if t = ''quantity'' then into (intDecoder (snd m) (Quantity c)) (\<lambda>x. c\<lparr>Quantity := x\<rparr>)
          else if t = ''fragile'' then into (boolDecoder (snd m) (Fragile c)) (\<lambda>x. c\<lparr>Fragile := x\<rparr>)
          else into (boolDecoder (snd m) (AllowRotation c)) (\<lambda>x. c\<lparr>AllowRotation := x\<rparr>))"

definition decodeCarton :: "('ctx, 'z) env_scheme \<Rightarrow> json \<Rightarrow> Carton \<Rightarrow> error + Carton" where
  "decodeCarton env j c =
     (case j of
        JNull \<Rightarrow> Inr c
      | JObject ms \<Rightarrow> structDecoder (cartonMember env) c ms
      | _ \<Rightarrow> Inl (UnmarshalTypeError (kind j) ''palletizer.Carton''))"

definition constraintsMember ::
  "('ctx, 'z) env_scheme \<Rightarrow> PackingConstraints \<Rightarrow> string \<times> json \<Rightarrow> error + PackingConstraints" where
  "constraintsMember env p m =
     (case field env [''max_length'', ''max_width'', ''max_height'', ''max_weight''] (fst m) of
        None \<Rightarrow> Inr p
      | Some t \<Rightarrow>
          if t = ''max_length'' then into (floatDecoder env (snd m) (MaxLength p)) (\<lambda>x. p\<lparr>MaxLength := x\<rparr>)
          else if t = ''max_width'' then into (floatDecoder env (snd m) (MaxWidth p)) (\<lambda>x. p\<lparr>MaxWidth := x\<rparr>)
          else if t = ''max_height'' then into (floatDecoder env (snd m) (MaxHeight p)) (\<lambda>x. p\<lparr>MaxHeight := x\<rparr>)
          else into (floatDecoder env (snd m) (MaxWeight p)) (\<lambda>x. p\<lparr>MaxWeight := x\<rparr>))"

definition decodeConstraints ::
  "('ctx, 'z) env_scheme \<Rightarrow> json \<Rightarrow> PackingConstraints \<Rightarrow> error + PackingConstraints" where
  "decodeConstraints env j p =
     (case j of
        JNull \<Rightarrow> Inr p
      | JObject ms \<Rightarrow> structDecoder (constraintsMember env) p ms
      | _ \<Rightarrow> Inl (UnmarshalTypeError (kind j) ''palletizer.PackingConstraints''))"

definition optionsMember ::
  "('ctx, 'z) env_scheme \<Rightarrow> PackingOptions \<Rightarrow> string \<times> json \<Rightarrow> error + PackingOptions" where
  "optionsMember env p m =
     (case field env [''support_percentage''] (fst m) of
        None \<Rightarrow> Inr p
      | Some t \<Rightarrow>
          into (floatDecoder env (snd m) (SupportPercentage p)) (\<lambda>x. p\<lparr>SupportPercentage := x\<rparr>))"

definition decodeOptions ::
  "('ctx, 'z) env_scheme \<Rightarrow> json \<Rightarrow> PackingOptions \<Rightarrow> error + PackingOptions" where
  "decodeOptions env j p =
     (case j of
        JNull \<Rightarrow> Inr p
      | JObject ms \<Rightarrow> structDecoder (optionsMember env) p ms
      | _ \<Rightarrow> Inl (UnmarshalTypeError (kind j) ''palletizer.PackingOptions''))"

definition zeroCarton :: Carton where
  "zeroCarton = \<lparr>ID = [], Length = 0, Width = 0, Height = 0, Weight = 0, Quantity = 0,
                 Fragile = False, AllowRotation = False\<rparr>"

fun decodeElements :: "('ctx, 'z) env_scheme \<Rightarrow> json list \<Rightarrow> error + Carton list" where
  "decodeElements env [] = Inr []"
| "decodeElements env (j # js) =
     (case decodeCarton env j zeroCarton of
        Inl e \<Rightarrow> Inl e
      | Inr c \<Rightarrow> (case decodeElements env js of Inl e \<Rightarrow> Inl e | Inr cs \<Rightarrow> Inr (c # cs)))"

definition sliceDecoder ::
  "('ctx, 'z) env_scheme \<Rightarrow> json \<Rightarrow> Carton list option \<Rightarrow> error + Carton list option" where
  "sliceDecoder env j cur =
     (case j of
        JNull \<Rightarrow> Inr None
      | JArray js \<Rightarrow> into (decodeElements env js) Some
      | _ \<Rightarrow> Inl (UnmarshalTypeError (kind j) ''[]palletizer.Carton''))"

definition requestMember ::
  "('ctx, 'z) env_scheme \<Rightarrow> PackingRequest \<Rightarrow> string \<times> json \<Rightarrow> error + PackingRequest" where
  "requestMember env r m =
     (case field env [''cartons'', ''packing_constraints'', ''packing_options''] (fst m) of
        None \<Rightarrow> Inr r
      | Some t \<Rightarrow>
          if t = ''cartons'' then
            into (sliceDecoder env (snd m) (Cartons r)) (\<lambda>x. r\<lparr>Cartons := x\<rparr>)
          else if t = ''packing_constraints'' then
            into (decodeConstraints env (snd m) (PackingConstraints r))
              (\<lambda>x. r\<lparr>PackingConstraints := x\<rparr>)
          else
            into (decodeOptions env (snd m) (PackingOptions r)) (\<lambda>x. r\<lparr>PackingOptions := x\<rparr>))"

definition zeroRequest :: PackingRequest where
  "zeroRequest =
     \<lparr>Cartons = None,
      PackingConstraints = \<lparr>MaxLength = 0, MaxWidth = 0, MaxHeight = 0, MaxWeight = 0\<rparr>,
      PackingOptions = \<lparr>SupportPercentage = 0\<rparr>\<rparr>"

definition decodeRequest :: "('ctx, 'z) env_scheme \<Rightarrow> json \<Rightarrow> PackingRequest \<Rightarrow> error + PackingRequest" where
  "decodeRequest env j r =
     (case j of
        JNull \<Rightarrow> Inr r
      | JObject ms \<Rightarrow> structDecoder (requestMember env) r ms
      | _ \<Rightarrow> Inl (UnmarshalTypeError (kind j) ''palletizer.PackingRequest''))"

definition Unmarshal :: "('ctx, 'z) env_scheme \<Rightarrow> bytes \<Rightarrow> error + PackingRequest" where
  "Unmarshal env b =
     (case readJSON env b of Inl e \<Rightarrow> Inl e | Inr j \<Rightarrow> decodeRequest env j zeroRequest)"

section \<open>The client\<close>

definition defaultAPIURL :: string where
  "defaultAPIURL = ''https://api.palletizer.app''"

definition Second :: int where
  "Second = 1000000000"

definition New :: Client where
  "New = \<lparr>baseURL = defaultAPIURL, httpClient = \<lparr>Timeout = 120 * Second\<rparr>\<rparr>"

definition NewWithEndpoint :: "string \<Rightarrow> Client" where
  "NewWithEndpoint url = \<lparr>baseURL = url, httpClient = \<lparr>Timeout = 120 * Second\<rparr>\<rparr>"

definition NewWithHTTPClient :: "http_Client \<Rightarrow> Client" where
  "NewWithHTTPClient h = \<lparr>baseURL = defaultAPIURL, httpClient = h\<rparr>"

text \<open>
  The calls into \<open>net/http\<close> and \<open>io\<close> that one run of \<open>Pack\<close> makes, in order, are
  its trace. The deferred \<open>resp.Body.Close()\<close> runs when \<open>Pack\<close> returns.
\<close>

datatype 'ctx event =
    NewRequestCall string string
  | DoCall "'ctx Request"
  | ReadAllCall
  | CloseCall

definition NewRequestWithContext ::
  "('ctx, 'z) env_scheme \<Rightarrow> 'ctx \<Rightarrow> string \<Rightarrow> string \<Rightarrow> bytes \<Rightarrow> error + 'ctx Request" where
  "NewRequestWithContext env ctx method url body =
     (case newRequestError env ctx method url of
        Some e \<Rightarrow> Inl e
      | None \<Rightarrow> Inr \<lparr>Method = method, URL = url, Header = Map.empty, Body = body, Ctx = ctx\<rparr>)"

definition Header_Set :: "'ctx Request \<Rightarrow> string \<Rightarrow> string \<Rightarrow> 'ctx Request" where
  "Header_Set req k v = req\<lparr>Header := (Header req)(k \<mapsto> [v])\<rparr>"

definition StatusOK :: go_int where
  "StatusOK = 200"

text \<open>
  \<open>Pack\<close> returns the pair of the source, a response pointer and an error, each of
  which may be nil, and the trace.
\<close>

definition Pack ::
  "('ctx, 'z) env_scheme \<Rightarrow> Client \<Rightarrow> 'ctx \<Rightarrow> PackingRequest option
     \<Rightarrow> (PackingResponse option \<times> error option) \<times> 'ctx event list" where
  "Pack env c ctx request =
     (case Marshal env request of
        Inl err \<Rightarrow> ((None, Some (Errorf_w ''failed to marshal request: '' err)), [])
      | Inr jsonData \<Rightarrow>
     (let url = baseURL c @ ''/api/v1/pack'' in
      case NewRequestWithContext env ctx ''POST'' url jsonData of
        Inl err \<Rightarrow>
          ((None, Some (Errorf_w ''failed to create request: '' err)),
           [NewRequestCall ''POST'' url])
      | Inr req0 \<Rightarrow>
     (let req = Header_Set req0 ''Content-Type'' ''application/json'' in
      case roundTrip env (httpClient c) req of
        Inl err \<Rightarrow>
          ((None, Some (Errorf_w ''failed to send request: '' err)),
           [NewRequestCall ''POST'' url, DoCall req])
      | Inr resp \<Rightarrow>
     (let trace = [NewRequestCall ''POST'' url, DoCall req, ReadAllCall, CloseCall] in
      case Response.Body resp of
        Inl err \<Rightarrow> ((None, Some (Errorf_w ''failed to read response: '' err)), trace)
      | Inr body \<Rightarrow>
     (case UnmarshalResponse env body of
        Inl err \<Rightarrow> ((None, Some (Errorf_w ''failed to parse response: '' err)), trace)
      | Inr response \<Rightarrow>
          if StatusCode resp \<noteq> StatusOK then
            if Error response \<noteq> [] then
              ((None,
                Some (errorString
                  (''API error (status '' @ showInt (sint (StatusCode resp)) @ ''): ''
                   @ Error response))), trace)
            else
              ((None,
                Some (errorString
                  (''API returned status '' @ showInt (sint (StatusCode resp)) @ '': ''
                   @ body))), trace)
          else ((Some response, None), trace))))))"

section \<open>Notions used in the statements\<close>

text \<open>
  The request that the specification describes: a POST to the pack endpoint of the
  client's base address, with the JSON content type and the serialised request as body.
\<close>

definition packRequest :: "Client \<Rightarrow> 'ctx \<Rightarrow> bytes \<Rightarrow> 'ctx Request" where
  "packRequest c ctx jsonData =
     \<lparr>Method = ''POST'', URL = baseURL c @ ''/api/v1/pack'',
      Header = [''Content-Type'' \<mapsto> [''application/json'']],
      Body = jsonData, Ctx = ctx\<rparr>"

text \<open>The requests of a trace that were handed to \<open>Do\<close>.\<close>

fun sent :: "'ctx event list \<Rightarrow> 'ctx Request list" where
  "sent [] = []"
| "sent (DoCall req # es) = req # sent es"
| "sent (e # es) = sent es"

text \<open>
  \<open>strings.Contains\<close>, and whether an error carries a text: in its own message or in
  that of an error it wraps.
\<close>

fun contains :: "string \<Rightarrow> string \<Rightarrow> bool" where
  "contains [] sub = (sub = [])"
| "contains (c # cs) sub = (take (length sub) (c # cs) = sub \<or> contains cs sub)"

fun carries :: "error \<Rightarrow> string \<Rightarrow> bool" where
  "carries (wrapError s e) b = (contains s b \<or> carries e b)"
| "carries e b = contains (error_message e) b"

text \<open>
  The \<open>float64\<close> fields and the identifiers of a request. A request is finite when
  none of its \<open>float64\<close> fields is infinite or not a number, and valid when moreover
  its identifiers are well-formed UTF-8.
\<close>

definition cartonFloats :: "Carton \<Rightarrow> float64 list" where
  "cartonFloats c = [Length c, Width c, Height c, Weight c]"

definition floats :: "PackingRequest \<Rightarrow> float64 list" where
  "floats r =
     concat (map cartonFloats (case Cartons r of None \<Rightarrow> [] | Some cs \<Rightarrow> cs)) @
     [MaxLength (PackingConstraints r), MaxWidth (PackingConstraints r),
      MaxHeight (PackingConstraints r), MaxWeight (PackingConstraints r),
      SupportPercentage (PackingOptions r)]"

definition ids :: "PackingRequest \<Rightarrow> string list" where
  "ids r = map ID (case Cartons r of None \<Rightarrow> [] | Some cs \<Rightarrow> cs)"

definition finiteRequest :: "PackingRequest \<Rightarrow> bool" where
  "finiteRequest r = list_all finite64 (floats r)"

definition validRequest :: "PackingRequest \<Rightarrow> bool" where
  "validRequest r \<longleftrightarrow> finiteRequest r \<and> list_all ValidString (ids r)"

text \<open>The largest finite \<open>float64\<close>, in units.\<close>

definition maxUnits :: nat where
  "maxUnits = (2 ^ 53 - 1) * 2 ^ 2045"

section \<open>The environment of the test suite\<close>

text \<open>
  \<open>TestPack\<close> runs \<open>Pack\<close> against a mock server. Its request, the document that
  \<open>json.Marshal\<close> writes for it and the syntax tree of that document:
\<close>

definition testRequest :: PackingRequest where
  "testRequest =
     \<lparr>Cartons = Some
        [\<lparr>ID = ''BOX001'',
          Length = 0x40830CCCCCCCCCCD,  \<comment> \<open>609.6\<close>
          Width = 0x407C933333333333,   \<comment> \<open>457.2\<close>
          Height = 0x4079666666666666,  \<comment> \<open>406.4\<close>
          Weight = 0x40D1B7EB851EB852,  \<comment> \<open>18143.68\<close>
          Quantity = 1,
          Fragile = False,
          AllowRotation = True\<rparr>],
      PackingConstraints = StandardPallet,
      PackingOptions = \<lparr>SupportPercentage = 0x4054000000000000\<rparr>\<rparr>" \<comment> \<open>80.0\<close>

definition testRequestJSON :: bytes where
  \<open>testRequestJSON =
     ''{"cartons":[{"id":"BOX001","length":609.6,"width":457.2,"height":406.4,'' @
     ''"weight":18143.68,"quantity":1,"fragile":false,"allow_rotation":true}],'' @
     ''"packing_constraints":{"max_length":1016,"max_width":1828.8,'' @
     ''"max_height":1219.2,"max_weight":680388},'' @
     ''"packing_options":{"support_percentage":80}}''\<close>

definition testRequestTree :: json where
  "testRequestTree =
     JObject
       [(''cartons'', JArray
          [JObject
             [(''id'', JString ''BOX001''),
              (''length'', JNumber ''609.6''),
              (''width'', JNumber ''457.2''),
              (''height'', JNumber ''406.4''),
              (''weight'', JNumber ''18143.68''),
              (''quantity'', JNumber ''1''),
              (''fragile'', JBool False),
              (''allow_rotation'', JBool True)]]),
        (''packing_constraints'', JObject
          [(''max_length'', JNumber ''1016''),
           (''max_width'', JNumber ''1828.8''),
           (''max_height'', JNumber ''1219.2''),
           (''max_weight'', JNumber ''680388'')]),
        (''packing_options'', JObject [(''support_percentage'', JNumber ''80'')])]"

text \<open>The same request with a support percentage that is not a number.\<close>

definition nanRequest :: PackingRequest where
  "nanRequest = testRequest\<lparr>PackingOptions := \<lparr>SupportPercentage = 0x7FF8000000000000\<rparr>\<rparr>"

text \<open>
  The response of the mock server and its body, and three other bodies a server may
  send: an error report, an empty object and a document cut short.
\<close>

definition testResponse :: PackingResponse where
  "testResponse =
     \<lparr>Pallets = Some
        [\<lparr>PalletID = 1,
          TotalWeight = 0x40D1B7EB851EB852,
          TotalHeight = 0x4079666666666666,
          UtilizationPercentage = 0x4057C00000000000,
          Cartons = Some
            [\<lparr>CartonID = ''BOX001_1'',
              Position = \<lparr>X = 0, Y = 0, Z = 0\<rparr>,
              Dimensions = \<lparr>Dimensions.Length = 0x40830CCCCCCCCCCD,
                            Width = 0x407C933333333333,
                            Height = 0x4079666666666666\<rparr>,
              Orientation = ''original'',
              Weight = 0x40D1B7EB851EB852,
              Layer = 0\<rparr>],
          CenterOfGravity = \<lparr>X = 0x40730CCCCCCCCCCD, Y = 0x406C933333333333,
                             Z = 0x4069666666666666\<rparr>\<rparr>],
      Summary = \<lparr>TotalPallets = 1, TotalCartonsPacked = 1,
                 AverageUtilization = 0x4057C00000000000, ComputationTimeMs = 5\<rparr>,
      Error = []\<rparr>"

definition testResponseJSON :: bytes where
  \<open>testResponseJSON =
     ''{"pallets":[{"pallet_id":1,"total_weight":18143.68,"total_height":406.4,'' @
     ''"utilization_percentage":95,"cartons":[{"carton_id":"BOX001_1",'' @
     ''"position":{"x":0,"y":0,"z":0},'' @
     ''"dimensions":{"length":609.6,"width":457.2,"height":406.4},'' @
     ''"orientation":"original","weight":18143.68,"layer":0}],'' @
     ''"center_of_gravity":{"x":304.8,"y":228.6,"z":203.2}}],'' @
     ''"summary":{"total_pallets":1,"total_cartons_packed":1,'' @
     ''"average_utilization":95,"computation_time_ms":5}}'' @ [CHR 0x0A]\<close>

definition zeroResponse :: PackingResponse where
  "zeroResponse =
     \<lparr>Pallets = None,
      Summary = \<lparr>TotalPallets = 0, TotalCartonsPacked = 0, AverageUtilization = 0,
                 ComputationTimeMs = 0\<rparr>,
      Error = []\<rparr>"

definition softErrorJSON :: bytes where
  \<open>softErrorJSON = ''{"error":"carton too large"}''\<close>

definition softErrorResponse :: PackingResponse where
  "softErrorResponse = zeroResponse\<lparr>Error := ''carton too large''\<rparr>"

definition truncatedJSON :: bytes where
  \<open>truncatedJSON = ''{"pallets":[''\<close>

text \<open>
  The library on the documents of the tests: a writer of documents that need no escapes,
  the literals that \<open>strconv\<close> writes for the numbers of the request and their reading,
  the scanner on the document of the request, and the decoder on the four bodies. Another
  body is to the scanner and the decoder a document that ends too early.
\<close>

definition quote :: string where
  "quote = [CHR 0x22]"

fun commas :: "string list \<Rightarrow> string" where
  "commas [] = []"
| "commas [x] = x"
| "commas (x # y # ys) = x @ '','' @ commas (y # ys)"

fun compact :: "json \<Rightarrow> string"
  and compactList :: "json list \<Rightarrow> string list"
  and compactMembers :: "(string \<times> json) list \<Rightarrow> string list" where
  "compact JNull = ''null''"
| "compact (JBool b) = (if b then ''true'' else ''false'')"
| "compact (JNumber s) = s"
| "compact (JString s) = quote @ s @ quote"
| "compact (JArray xs) = ''['' @ commas (compactList xs) @ '']''"
| "compact (JObject ms) = ''{'' @ commas (compactMembers ms) @ ''}''"
| "compactList [] = []"
| "compactList (x # xs) = compact x # compactList xs"
| "compactMembers [] = []"
| "compactMembers ((k, v) # ms) = (quote @ k @ quote @ '':'' @ compact v) # compactMembers ms"

definition testFloats :: "(float64 \<times> string) list" where
  "testFloats =
     [(0x40830CCCCCCCCCCD, ''609.6''),
      (0x407C933333333333, ''457.2''),
      (0x4079666666666666, ''406.4''),
      (0x40D1B7EB851EB852, ''18143.68''),
      (0x408FC00000000000, ''1016''),
      (0x409C933333333333, ''1828.8''),
      (0x40930CCCCCCCCCCD, ''1219.2''),
      (0x4124C38800000000, ''680388''),
      (0x4054000000000000, ''80'')]"

definition endOfInput :: error where
  "endOfInput = LibraryError ''unexpected end of JSON input''"

definition testDecoder :: "bytes \<Rightarrow> error + PackingResponse" where
  "testDecoder b =
     (if b = testResponseJSON then Inr testResponse
      else if b = softErrorJSON then Inr softErrorResponse
      else if b = ''{}'' then Inr zeroResponse
      else Inl endOfInput)"

text \<open>
  The environment in which the round trip of \<open>Do\<close> has the given outcome: a transport
  error, or the response of the server.
\<close>

definition testEnv :: "error + Response \<Rightarrow> unit env" where
  "testEnv outcome =
     \<lparr>formatFloat = (\<lambda>f. case map_of testFloats f of Some s \<Rightarrow> s | None \<Rightarrow> ''0''),
      parseFloat = (\<lambda>s. case map_of (map (\<lambda>(f, s). (s, f)) testFloats) s of
                          Some f \<Rightarrow> Inr f
                        | None \<Rightarrow> Inl (LibraryError ''strconv.ParseFloat: invalid syntax'')),
      writeJSON = compact,
      readJSON = (\<lambda>b. if b = testRequestJSON then Inr testRequestTree else Inl endOfInput),
      foldName = (\<lambda>s. s),
      UnmarshalResponse = testDecoder,
      newRequestError = (\<lambda>ctx method url. None),
      roundTrip = (\<lambda>h req. outcome)\<rparr>"

definition server :: "go_int \<Rightarrow> bytes \<Rightarrow> unit env" where
  "server status body = testEnv (Inr \<lparr>StatusCode = status, Body = Inr body\<rparr>)"

definition testClient :: Client where
  "testClient = NewWithEndpoint ''http://127.0.0.1:8080''"

section \<open>Lemmas about the codec\<close>

subsection \<open>Decimal integers read back\<close>

lemma isDigit_digit: "d < 10 \<Longrightarrow> isDigit (digit d)"
  by (simp add: isDigit_def digit_def)

lemma of_char_digit: "d < 10 \<Longrightarrow> of_char (digit d) = 48 + d"
  by (simp add: digit_def)

lemma showNat_digits: "list_all isDigit (showNat n)"
proof (induction n rule: showNat.induct)
  case (1 n)
  show ?case
  proof (cases "n < 10")
    case True
    then show ?thesis by (subst showNat.simps) (simp add: isDigit_digit)
  next
    case False
    with 1 show ?thesis by (subst showNat.simps) (simp add: isDigit_digit)
  qed
qed

lemma showNat_nonempty: "showNat n \<noteq> []"
  by (subst showNat.simps) simp

lemma readNat_snoc: "readNat (ds @ [c]) = 10 * readNat ds + (of_char c - 48)"
  by (simp add: readNat_def)

lemma readNat_showNat: "readNat (showNat n) = n"
proof (induction n rule: showNat.induct)
  case (1 n)
  show ?case
  proof (cases "n < 10")
    case True
    then show ?thesis
      by (subst showNat.simps) (simp add: readNat_def of_char_digit)
  next
    case False
    with 1 have "readNat (showNat (n div 10)) = n div 10" by simp
    with False show ?thesis
      by (subst showNat.simps) (simp add: readNat_snoc of_char_digit)
  qed
qed

lemma hd_showNat_digit: "isDigit (hd (showNat n))"
  using showNat_digits [of n] showNat_nonempty [of n]
  by (cases "showNat n") simp_all

lemma isDigit_not_sign: "isDigit c \<Longrightarrow> c \<noteq> CHR ''-'' \<and> c \<noteq> CHR ''+''"
  by (auto simp: isDigit_def)

lemma ParseInt_showInt: "ParseInt (showInt (sint (w :: go_int))) = Some w"
proof (cases "sint w < 0")
  case True
  have lo: "- (2 ^ 63) \<le> sint w"
    using sint_ge [of w] by simp
  from True lo have n: "nat (- sint w) \<le> 2 ^ 63" by simp
  have "word_of_int (- int (nat (- sint w))) = w"
    using True by simp
  with True n show ?thesis
    by (simp add: ParseInt_def showInt_def showNat_nonempty showNat_digits readNat_showNat Let_def)
next
  case False
  have hi: "sint w < 2 ^ 63"
    using sint_lt [of w] by simp
  from False hi have n: "nat (sint w) < 2 ^ 63" by simp
  have s: "hd (showNat (nat (sint w))) \<noteq> CHR ''-''" "hd (showNat (nat (sint w))) \<noteq> CHR ''+''"
    using isDigit_not_sign [OF hd_showNat_digit] by blast+
  have "word_of_nat (nat (sint w)) = w"
    using False by (simp add: of_nat_nat)
  with False n s show ?thesis
    by (simp add: ParseInt_def showInt_def showNat_nonempty showNat_digits readNat_showNat Let_def)
qed

subsection \<open>What the encoder accepts\<close>

lemma toValidUTF8_valid: "ValidString s \<Longrightarrow> toValidUTF8 s = s"
proof (induction s rule: ValidString.induct)
  case 1
  show ?case by simp
next
  case (2 c cs)
  from "2.prems" have n: "runeLen (c # cs) \<noteq> 0"
    and v: "ValidString (drop (runeLen (c # cs)) (c # cs))"
    by (simp_all split: if_splits)
  from "2.IH" n v have "toValidUTF8 (drop (runeLen (c # cs)) (c # cs)) = drop (runeLen (c # cs)) (c # cs)"
    by simp
  with n show ?case
    by (simp del: drop_Suc_Cons take_Suc_Cons)
qed

lemma floatEncoder_finite:
  "finite64 f \<Longrightarrow> floatEncoder env f = Inr (JNumber (formatFloat env f))"
  by (simp add: floatEncoder_def finite64_def)

lemma members_Inl: "(\<exists>e. members fs = Inl e) \<longleftrightarrow> (\<exists>x \<in> set fs. \<exists>e. snd x = Inl e)"
  by (induction fs rule: members.induct) (auto split: sum.splits)

lemma elements_Inl: "(\<exists>e. elements xs = Inl e) \<longleftrightarrow> (\<exists>x \<in> set xs. \<exists>e. x = Inl e)"
  by (induction xs rule: elements.induct) (auto split: sum.splits)

lemma structEncoder_Inl:
  "(\<exists>e. structEncoder fs = Inl e) \<longleftrightarrow> (\<exists>x \<in> set fs. \<exists>e. snd x = Inl e)"
  using members_Inl [of fs] by (auto simp: structEncoder_def split: sum.splits)

lemma floatEncoder_Inl: "(\<exists>e. floatEncoder env f = Inl e) \<longleftrightarrow> \<not> finite64 f"
  by (auto simp: floatEncoder_def finite64_def)

lemma encodeCarton_Inl:
  "(\<exists>e. encodeCarton env c = Inl e) \<longleftrightarrow> \<not> list_all finite64 (cartonFloats c)"
  unfolding encodeCarton_def structEncoder_Inl
  by (simp add: floatEncoder_Inl cartonFloats_def stringEncoder_def intEncoder_def
      boolEncoder_def)

lemma encodeConstraints_Inl:
  "(\<exists>e. encodeConstraints env p = Inl e) \<longleftrightarrow>
     \<not> list_all finite64 [MaxLength p, MaxWidth p, MaxHeight p, MaxWeight p]"
  unfolding encodeConstraints_def structEncoder_Inl
  by (simp add: floatEncoder_Inl)

lemma encodeOptions_Inl:
  "(\<exists>e. encodeOptions env p = Inl e) \<longleftrightarrow> \<not> finite64 (SupportPercentage p)"
  unfolding encodeOptions_def structEncoder_Inl
  by (simp add: floatEncoder_Inl)

lemma sliceEncoder_Inl:
  "(\<exists>e. sliceEncoder (encodeCarton env) xs = Inl e) \<longleftrightarrow>
     \<not> list_all finite64 (concat (map cartonFloats (case xs of None \<Rightarrow> [] | Some cs \<Rightarrow> cs)))"
proof (cases xs)
  case None
  then show ?thesis by (simp add: sliceEncoder_def)
next
  case (Some cs)
  have "(\<exists>e. sliceEncoder (encodeCarton env) xs = Inl e)
          \<longleftrightarrow> (\<exists>e. elements (map (encodeCarton env) cs) = Inl e)"
    using Some by (auto simp: sliceEncoder_def split: sum.splits)
  also have "\<dots> \<longleftrightarrow> (\<exists>c \<in> set cs. \<exists>e. encodeCarton env c = Inl e)"
    unfolding elements_Inl by auto
  also have "\<dots> \<longleftrightarrow> (\<exists>c \<in> set cs. \<not> list_all finite64 (cartonFloats c))"
    by (simp add: encodeCarton_Inl)
  also have "\<dots> \<longleftrightarrow> \<not> list_all finite64 (concat (map cartonFloats cs))"
    by (auto simp: list_all_iff)
  finally show ?thesis using Some by simp
qed

lemma encodeRequest_Inl: "(\<exists>e. encodeRequest env r = Inl e) \<longleftrightarrow> \<not> finiteRequest r"
  unfolding encodeRequest_def structEncoder_Inl
  by (simp add: sliceEncoder_Inl encodeConstraints_Inl encodeOptions_Inl finiteRequest_def
      floats_def) blast

lemma Marshal_Inl: "(\<exists>e. Marshal env (Some r) = Inl e) \<longleftrightarrow> \<not> finiteRequest r"
  using encodeRequest_Inl [of env r] by (auto simp: Marshal_def split: sum.splits)

lemma nan_not_finite: "\<not> finite64 0x7FF8000000000000"
  by (simp add: finite64_def IsNaN_def IsInf_def exponent_def fraction_def)

subsection \<open>Decoding what was encoded\<close>

lemma decode_encode_carton:
  assumes "list_all finite64 (cartonFloats c)" and "ValidString (ID c)"
    and "\<forall>f \<in> set (cartonFloats c). parseFloat env (formatFloat env f) = Inr f"
  shows "\<exists>j. encodeCarton env c = Inr j \<and> decodeCarton env j zeroCarton = Inr c"
  using assms
  by (simp add: encodeCarton_def structEncoder_def floatEncoder_finite stringEncoder_def
      intEncoder_def boolEncoder_def decodeCarton_def cartonMember_def field_def into_def
      floatDecoder_def intDecoder_def boolDecoder_def stringDecoder_def ParseInt_showInt
      zeroCarton_def toValidUTF8_valid cartonFloats_def)

lemma decode_encode_constraints:
  assumes "list_all finite64 [MaxLength p, MaxWidth p, MaxHeight p, MaxWeight p]"
    and "\<forall>f \<in> set [MaxLength p, MaxWidth p, MaxHeight p, MaxWeight p].
           parseFloat env (formatFloat env f) = Inr f"
  shows "\<exists>j. encodeConstraints env p = Inr j \<and> decodeConstraints env j p0 = Inr p"
  using assms
  by (simp add: encodeConstraints_def structEncoder_def floatEncoder_finite
      decodeConstraints_def constraintsMember_def field_def into_def floatDecoder_def)

lemma decode_encode_options:
  assumes "finite64 (SupportPercentage p)"
    and "parseFloat env (formatFloat env (SupportPercentage p)) = Inr (SupportPercentage p)"
  shows "\<exists>j. encodeOptions env p = Inr j \<and> decodeOptions env j p0 = Inr p"
  using assms
  by (simp add: encodeOptions_def structEncoder_def floatEncoder_finite
      decodeOptions_def optionsMember_def field_def into_def floatDecoder_def)

lemma decode_encode_elements:
  assumes "list_all finite64 (concat (map cartonFloats cs))" and "list_all ValidString (map ID cs)"
    and "\<forall>f \<in> set (concat (map cartonFloats cs)). parseFloat env (formatFloat env f) = Inr f"
  shows "\<exists>js. elements (map (encodeCarton env) cs) = Inr js \<and> decodeElements env js = Inr cs"
  using assms
proof (induction cs)
  case Nil
  show ?case by simp
next
  case (Cons c cs)
  from Cons.prems obtain j where j: "encodeCarton env c = Inr j"
      "decodeCarton env j zeroCarton = Inr c"
    using decode_encode_carton [of c env] by auto
  from Cons obtain js where js: "elements (map (encodeCarton env) cs) = Inr js"
      "decodeElements env js = Inr cs"
    by auto
  from j js show ?case by simp
qed

lemma decode_encode_slice:
  assumes "list_all finite64 (concat (map cartonFloats (case xs of None \<Rightarrow> [] | Some cs \<Rightarrow> cs)))"
    and "list_all ValidString (map ID (case xs of None \<Rightarrow> [] | Some cs \<Rightarrow> cs))"
    and "\<forall>f \<in> set (concat (map cartonFloats (case xs of None \<Rightarrow> [] | Some cs \<Rightarrow> cs))).
           parseFloat env (formatFloat env f) = Inr f"
  shows "\<exists>j. sliceEncoder (encodeCarton env) xs = Inr j \<and> sliceDecoder env j cur = Inr xs"
proof (cases xs)
  case None
  then show ?thesis by (simp add: sliceEncoder_def sliceDecoder_def)
next
  case (Some cs)
  with assms obtain js where "elements (map (encodeCarton env) cs) = Inr js"
      "decodeElements env js = Inr cs"
    using decode_encode_elements [of cs env] by auto
  with Some show ?thesis by (simp add: sliceEncoder_def sliceDecoder_def into_def)
qed

lemma decode_encode_request:
  assumes "validRequest r"
    and "\<forall>f \<in> set (floats r). parseFloat env (formatFloat env f) = Inr f"
  shows "\<exists>j. encodeRequest env r = Inr j \<and> decodeRequest env j zeroRequest = Inr r"
proof -
  let ?cs = "case Cartons r of None \<Rightarrow> [] | Some cs \<Rightarrow> cs"
  let ?p = "PackingConstraints r"
  let ?fp = "[MaxLength ?p, MaxWidth ?p, MaxHeight ?p, MaxWeight ?p]"
  let ?s = "SupportPercentage (PackingOptions r)"
  have fl: "floats r = concat (map cartonFloats ?cs) @ ?fp @ [?s]"
    by (simp add: floats_def)
  from assms(1) have fin: "list_all finite64 (concat (map cartonFloats ?cs))"
      "list_all finite64 ?fp" "finite64 ?s"
    unfolding validRequest_def finiteRequest_def fl by simp_all
  from assms(1) have val: "list_all ValidString (map ID ?cs)"
    by (simp add: validRequest_def ids_def)
  from assms(2) have rt: "\<forall>f \<in> set (concat (map cartonFloats ?cs)). parseFloat env (formatFloat env f) = Inr f"
      "\<forall>f \<in> set ?fp. parseFloat env (formatFloat env f) = Inr f"
      "parseFloat env (formatFloat env ?s) = Inr ?s"
    unfolding fl by simp_all
  obtain jc where jc: "sliceEncoder (encodeCarton env) (Cartons r) = Inr jc"
      "sliceDecoder env jc None = Inr (Cartons r)"
    using decode_encode_slice [OF fin(1) val rt(1)] by blast
  obtain jp where jp: "encodeConstraints env ?p = Inr jp"
      "decodeConstraints env jp \<lparr>MaxLength = 0, MaxWidth = 0, MaxHeight = 0, MaxWeight = 0\<rparr>
         = Inr ?p"
    using decode_encode_constraints [OF fin(2) rt(2)] by blast
  obtain jo where jo: "encodeOptions env (PackingOptions r) = Inr jo"
      "decodeOptions env jo \<lparr>SupportPercentage = 0\<rparr> = Inr (PackingOptions r)"
    using decode_encode_options [OF fin(3) rt(3)] by blast
  from jc jp jo show ?thesis
    by (simp add: encodeRequest_def structEncoder_def decodeRequest_def requestMember_def
        field_def into_def zeroRequest_def)
qed

section \<open>Lemmas about the arithmetic\<close>

subsection \<open>The fields of a bit pattern\<close>

lemma exponent_unat: "exponent f = unat f div 2 ^ 52 mod 2 ^ 11"
proof -
  have "(0x7FF :: 64 word) = mask 11" by (simp add: mask_eq_exp_minus_1)
  then have "exponent f = unat (take_bit 11 (drop_bit 52 f))"
    by (simp only: exponent_def take_bit_eq_mask)
  also have "\<dots> = take_bit 11 (drop_bit 52 (unat f))"
    by (simp only: unsigned_take_bit_eq unat_drop_bit_eq)
  also have "\<dots> = unat f div 2 ^ 52 mod 2 ^ 11"
    by (simp only: take_bit_eq_mod drop_bit_eq_div)
  finally show ?thesis .
qed

lemma fraction_unat: "fraction f = unat f mod 2 ^ 52"
proof -
  have "(0xFFFFFFFFFFFFF :: 64 word) = mask 52" by (simp add: mask_eq_exp_minus_1)
  then have "fraction f = unat (take_bit 52 f)"
    by (simp only: fraction_def take_bit_eq_mask)
  also have "\<dots> = take_bit 52 (unat f)"
    by (simp only: unsigned_take_bit_eq)
  also have "\<dots> = unat f mod 2 ^ 52"
    by (simp only: take_bit_eq_mod)
  finally show ?thesis .
qed

lemma signbit_unat: "signbit f \<longleftrightarrow> 2 ^ 63 \<le> unat f"
proof -
  have "signbit f \<longleftrightarrow> bit (unat f) 63"
    by (simp add: signbit_def bit_unsigned_iff)
  also have "\<dots> \<longleftrightarrow> odd (unat f div 2 ^ 63)"
    by (simp only: bit_iff_odd)
  also have "\<dots> \<longleftrightarrow> 2 ^ 63 \<le> unat f"
  proof -
    have "unat f < 2 ^ 64" using unsigned_less [of f] by simp
    then have "unat f div 2 ^ 63 < 2" by (simp add: less_mult_imp_div_less)
    then have "unat f div 2 ^ 63 = 0 \<or> unat f div 2 ^ 63 = 1" by linarith
    then show ?thesis by (auto simp: div_eq_0_iff)
  qed
  finally show ?thesis .
qed

lemma unat_of_nat64: "b < 2 ^ 64 \<Longrightarrow> unat (of_nat b :: 64 word) = b"
  by (simp add: unat_of_nat)

lemma fields_of_nat:
  assumes "b < 2047 * 2 ^ 52"
  shows "exponent (of_nat b) = b div 2 ^ 52"
    and "fraction (of_nat b) = b mod 2 ^ 52"
    and "\<not> signbit (of_nat b)"
    and "finite64 (of_nat b)"
proof -
  from assms have "b < 2 ^ 64" by simp
  then have u: "unat (of_nat b :: float64) = b" by (rule unat_of_nat64)
  from assms have d: "b div 2 ^ 52 < 2047" by (simp add: less_mult_imp_div_less)
  then show e: "exponent (of_nat b) = b div 2 ^ 52" by (simp add: exponent_unat u)
  show "fraction (of_nat b) = b mod 2 ^ 52" by (simp add: fraction_unat u)
  from assms show "\<not> signbit (of_nat b)" by (simp add: signbit_unat u)
  from e d show "finite64 (of_nat b)"
    by (simp add: finite64_def IsInf_def IsNaN_def)
qed

text \<open>The bit pattern \<open>t * 2^52 + m\<close> stands for \<open>m * 2^t\<close> units.\<close>

lemma block_div: "r < P \<Longrightarrow> (k * P + r) div P = (k::nat)"
  by simp

lemma block_mod: "r < P \<Longrightarrow> (k * P + r) mod P = (r::nat)"
  by simp

lemma units_of_bits:
  assumes m: "m \<le> 2 ^ 53" and tm: "t = 0 \<or> 2 ^ 52 \<le> m"
    and b: "b = t * 2 ^ 52 + m" and fin: "b < 2047 * 2 ^ 52"
  shows "units (of_nat b) = m * 2 ^ t"
proof -
  define P :: nat where "P = 2 ^ 52"
  have P: "0 < P" by (simp add: P_def)
  have e: "exponent (of_nat b) = b div P" and f: "fraction (of_nat b) = b mod P"
    using fields_of_nat(1,2) [OF fin] by (simp_all add: P_def)
  have u: "units (of_nat b) =
             (if b div P = 0 then b mod P else (P + b mod P) * 2 ^ (b div P - 1))"
    by (simp add: units_def e f P_def)
  from m have m': "m \<le> 2 * P" by (simp add: P_def)
  from tm have tm': "t = 0 \<or> P \<le> m" by (simp add: P_def)
  from b have b': "b = t * P + m" by (simp add: P_def)
  consider (sub) "m < P" "t = 0" | (norm) "P \<le> m" "m < 2 * P" | (top) "m = 2 * P"
    using m' tm' by (cases "m < P"; cases "m = 2 * P") auto
  then show ?thesis
  proof cases
    case sub
    with b' have "b div P = 0" "b mod P = m" by simp_all
    with sub show ?thesis unfolding u by simp
  next
    case norm
    define r where "r = m - P"
    with norm have r: "m = P + r" "r < P" by simp_all
    have eq: "b = (t + 1) * P + r" using r b' by (simp add: algebra_simps)
    have "b div P = t + 1" "b mod P = r"
      by (simp_all only: eq block_div [OF r(2)] block_mod [OF r(2)])
    with r show ?thesis unfolding u by simp
  next
    case top
    have eq: "b = (t + 2) * P + 0" using top b' by (simp add: algebra_simps)
    have "b div P = t + 2" "b mod P = 0"
      by (simp_all only: eq block_div [OF P] block_mod [OF P])
    with top show ?thesis unfolding u by simp
  qed
qed

subsection \<open>Rounding a quotient to the nearest integer\<close>

lemma rne_bounds:
  assumes "0 < d"
  shows "2 * (rne n d * d) \<le> 2 * n + d" and "2 * n \<le> 2 * (rne n d * d) + d"
proof -
  define q r where "q = n div d" and "r = n mod d"
  have n: "n = q * d + r" and r: "r < d"
    using assms by (simp_all add: q_def r_def)
  have c: "rne n d = (if 2 * r < d \<or> (2 * r = d \<and> even q) then q else q + 1)"
    by (simp add: rne_def q_def r_def Let_def)
  show "2 * (rne n d * d) \<le> 2 * n + d"
    unfolding c using r by (auto simp: n algebra_simps)
  show "2 * n \<le> 2 * (rne n d * d) + d"
    unfolding c using r by (auto simp: n algebra_simps)
qed

lemma rne_le:
  assumes "0 < d" and "n \<le> k * d"
  shows "rne n d \<le> k"
proof (cases "n = k * d")
  case True
  with assms show ?thesis by (simp add: rne_def)
next
  case False
  with assms have "n < k * d" by simp
  then have "n div d < k" using assms(1) by (simp add: less_mult_imp_div_less)
  then show ?thesis by (simp add: rne_def Let_def)
qed

lemma rne_ge:
  assumes "0 < d" and "k * d \<le> n"
  shows "k \<le> rne n d"
proof -
  from assms have "k \<le> n div d" by (simp add: less_eq_div_iff_mult_less_eq)
  then show ?thesis by (simp add: rne_def Let_def)
qed

lemma rne_error:
  assumes "0 < d"
  shows "\<bar>real (rne n d) - real n / real d\<bar> \<le> 1 / 2"
proof -
  have a: "2 * (real (rne n d) * real d) \<le> 2 * real n + real d"
    using rne_bounds(1) [OF assms, of n] by (metis of_nat_add of_nat_le_iff of_nat_mult of_nat_numeral)
  have b: "2 * real n \<le> 2 * (real (rne n d) * real d) + real d"
    using rne_bounds(2) [OF assms, of n] by (metis of_nat_add of_nat_le_iff of_nat_mult of_nat_numeral)
  have d: "0 < real d" using assms by simp
  have "(real (rne n d) - real n / real d) * real d = real (rne n d) * real d - real n"
    using d by (simp add: field_simps)
  then have "\<bar>real (rne n d) - real n / real d\<bar> * real d = \<bar>real (rne n d) * real d - real n\<bar>"
    using d by (metis abs_mult_pos less_imp_le)
  also have "\<dots> \<le> real d / 2" using a b by linarith
  finally have "\<bar>real (rne n d) - real n / real d\<bar> * real d \<le> (1 / 2) * real d" by simp
  then show ?thesis using d by (simp only: mult_le_cancel_right_pos)
qed

subsection \<open>Bit lengths\<close>

lemma bitlen_less: "n < 2 ^ bitlen n"
proof (induction n rule: bitlen.induct)
  case (1 n)
  show ?case
  proof (cases "n = 0")
    case True
    then show ?thesis by (simp add: bitlen.simps)
  next
    case False
    with 1 have "n div 2 < 2 ^ bitlen (n div 2)" by simp
    then have "n < 2 * 2 ^ bitlen (n div 2)" by linarith
    with False show ?thesis by (subst bitlen.simps) simp
  qed
qed

lemma bitlen_ge: "0 < n \<Longrightarrow> 2 ^ (bitlen n - 1) \<le> n"
proof (induction n rule: bitlen.induct)
  case (1 n)
  show ?case
  proof (cases "n div 2 = 0")
    case True
    with "1.prems" have "n = 1" by (simp add: div_eq_0_iff) 
    then show ?thesis by (simp add: bitlen.simps)
  next
    case False
    with 1 have ih: "2 ^ (bitlen (n div 2) - 1) \<le> n div 2" by simp
    from False have pos: "0 < bitlen (n div 2)" by (subst bitlen.simps) simp
    have "bitlen n = Suc (bitlen (n div 2))" using "1.prems" by (subst bitlen.simps) simp
    then have "2 ^ (bitlen n - 1) = 2 * 2 ^ (bitlen (n div 2) - 1)"
      using pos by (cases "bitlen (n div 2)") simp_all
    also have "\<dots> \<le> 2 * (n div 2)" using ih by simp
    also have "\<dots> \<le> n" by simp
    finally show ?thesis .
  qed
qed

lemma bitlen_le: "n < 2 ^ k \<Longrightarrow> bitlen n \<le> k"
proof (rule ccontr)
  assume n: "n < 2 ^ k" and "\<not> bitlen n \<le> k"
  then have k: "k \<le> bitlen n - 1" and "0 < bitlen n" by simp_all
  then have "0 < n" by (cases "n = 0") (simp_all add: bitlen.simps)
  then have "2 ^ (bitlen n - 1) \<le> n" by (rule bitlen_ge)
  moreover have "(2::nat) ^ k \<le> 2 ^ (bitlen n - 1)" using k by (simp add: power_increasing)
  ultimately show False using n by (meson order_trans not_less)
qed

subsection \<open>The rounded bit pattern\<close>

lemma roundBits_parts:
  fixes n d :: nat
  assumes d: "0 < d"
  defines "t \<equiv> bitlen (n div d) - 53"
  defines "m \<equiv> rne n (d * 2 ^ t)"
  shows "roundBits n d = t * 2 ^ 52 + m"
    and "m \<le> 2 ^ 53"
    and "t = 0 \<or> 2 ^ 52 \<le> m"
    and "\<bar>real (m * 2 ^ t) - real n / real d\<bar> \<le> real n / real d / 2 ^ 53 + 1 / 2"
proof -
  define q where "q = n div d"
  define D where "D = d * 2 ^ t"
  have D: "0 < D" using d by (simp add: D_def)
  have m: "m = rne n D" by (simp add: m_def D_def)
  have t: "t = bitlen q - 53" by (simp add: t_def q_def)
  show "roundBits n d = t * 2 ^ 52 + m"
    by (simp add: roundBits_def Let_def t_def m_def)
  have "q * d + n mod d = n" unfolding q_def by (rule div_mult_mod_eq)
  moreover have "n mod d < d" using d by simp
  ultimately have qd: "q * d \<le> n" and nqd: "n < (q + 1) * d"
    by (simp_all add: algebra_simps)
  text \<open>The quotient is below \<open>2 ^ (t + 53)\<close>.\<close>
  have "bitlen q \<le> t + 53" using t by simp
  then have "(2::nat) ^ bitlen q \<le> 2 ^ (t + 53)" by (rule power_increasing) simp
  with bitlen_less [of q] have "q + 1 \<le> 2 ^ (t + 53)" by linarith
  then have "(q + 1) * d \<le> 2 ^ (t + 53) * d" by (rule mult_le_mono1)
  also have "\<dots> = 2 ^ 53 * D" by (simp add: D_def power_add)
  finally have up: "n \<le> 2 ^ 53 * D" using nqd by simp
  show m53: "m \<le> 2 ^ 53" unfolding m by (rule rne_le [OF D up])
  text \<open>When \<open>t\<close> is positive the quotient is at least \<open>2 ^ (t + 52)\<close>.\<close>
  have low: "2 ^ 52 * D \<le> n" if "0 < t"
  proof -
    from that t have b: "bitlen q = t + 53" by simp
    then have "0 < q" by (cases "q = 0") (simp_all add: bitlen.simps)
    then have "2 ^ (bitlen q - 1) \<le> q" by (rule bitlen_ge)
    moreover have "bitlen q - 1 = t + 52" using b by simp
    ultimately have "2 ^ (t + 52) \<le> q" by (simp only:)
    then have "2 ^ (t + 52) * d \<le> q * d" by (rule mult_le_mono1)
    also have "2 ^ (t + 52) * d = 2 ^ 52 * D" by (simp add: D_def power_add)
    finally show ?thesis using qd by simp
  qed
  show "t = 0 \<or> 2 ^ 52 \<le> m"
  proof (cases "t = 0")
    case False
    then have "2 ^ 52 \<le> rne n D" using rne_ge [OF D low] by simp
    then show ?thesis by (simp add: m)
  qed simp
  text \<open>The error is half a step of the grid \<open>2 ^ t\<close>.\<close>
  have rd: "0 < real d" using d by simp
  have e: "\<bar>real m - real n / real D\<bar> \<le> 1 / 2" unfolding m by (rule rne_error [OF D])
  have nD: "real n / real D * 2 ^ t = real n / real d"
    using d by (simp add: D_def)
  have "real (m * 2 ^ t) - real n / real d = (real m - real n / real D) * 2 ^ t"
    by (simp add: nD [symmetric] left_diff_distrib)
  then have "\<bar>real (m * 2 ^ t) - real n / real d\<bar> = \<bar>real m - real n / real D\<bar> * 2 ^ t"
    by (simp only: abs_mult) simp
  also have "\<dots> \<le> 1 / 2 * 2 ^ t" using e by (simp add: mult_right_mono)
  finally have step: "\<bar>real (m * 2 ^ t) - real n / real d\<bar> \<le> 2 ^ t / 2" by simp
  have "(2::real) ^ t / 2 \<le> real n / real d / 2 ^ 53 + 1 / 2"
  proof (cases "t = 0")
    case True
    then show ?thesis by simp
  next
    case False
    then have "2 ^ 52 * D \<le> n" using low by simp
    then have "real (2 ^ 52 * D) \<le> real n" by (simp only: of_nat_le_iff)
    then have "2 ^ 52 * 2 ^ t * real d \<le> real n" by (simp add: D_def algebra_simps)
    then have "2 ^ 52 * 2 ^ t \<le> real n / real d" using rd by (simp add: pos_le_divide_eq)
    then have "2 ^ t / 2 \<le> real n / real d / 2 ^ 53" by simp
    moreover have "0 \<le> (1::real) / 2" by simp
    ultimately show ?thesis by linarith
  qed
  with step show "\<bar>real (m * 2 ^ t) - real n / real d\<bar> \<le> real n / real d / 2 ^ 53 + 1 / 2"
    by linarith
qed

lemma fround_finite:
  assumes d: "0 < d" and fin: "roundBits n d < 2047 * 2 ^ 52"
  shows "finite64 (fround False n d)"
    and "\<not> signbit (fround False n d)"
    and "\<bar>real (units (fround False n d)) - real n / real d\<bar>
           \<le> real n / real d / 2 ^ 53 + 1 / 2"
proof -
  define t where "t = bitlen (n div d) - 53"
  define m where "m = rne n (d * 2 ^ t)"
  note p = roundBits_parts [OF d, of n, folded t_def m_def]
  have w: "fround False n d = of_nat (roundBits n d)"
    using fin by (simp add: fround_def withSign_def)
  show "finite64 (fround False n d)" unfolding w by (rule fields_of_nat(4) [OF fin])
  show "\<not> signbit (fround False n d)" unfolding w by (rule fields_of_nat(3) [OF fin])
  have "units (of_nat (roundBits n d)) = m * 2 ^ t"
    by (rule units_of_bits [OF p(2) p(3) p(1) fin])
  with p(4) show "\<bar>real (units (fround False n d)) - real n / real d\<bar>
           \<le> real n / real d / 2 ^ 53 + 1 / 2"
    by (simp only: w)
qed

lemma fround_overflow:
  assumes "\<not> roundBits n d < 2047 * 2 ^ 52"
  shows "fround False n d = Infinity"
  using assms by (simp add: fround_def withSign_def)

lemma Infinity_not_finite: "\<not> finite64 Infinity"
  by (simp add: finite64_def IsInf_def IsNaN_def exponent_def fraction_def Infinity_def)

lemma roundBits_no_overflow:
  assumes d: "0 < d" and n: "n \<le> maxUnits * d"
  shows "roundBits n d < 2047 * 2 ^ 52"
proof -
  define t where "t = bitlen (n div d) - 53"
  define m where "m = rne n (d * 2 ^ t)"
  define P :: nat where "P = 2 ^ 52"
  note p = roundBits_parts [OF d, of n, folded t_def m_def]
  have "n div d \<le> maxUnits * d div d" using n by (rule div_le_mono)
  also have "\<dots> = maxUnits" using d by simp
  also have "maxUnits < 2 ^ 53 * 2 ^ 2045" by (simp add: maxUnits_def)
  finally have "n div d < 2 ^ (2045 + 53)" by (simp only: power_add mult.commute)
  then have "bitlen (n div d) \<le> 2045 + 53" by (rule bitlen_le)
  then have t: "t \<le> 2045" by (simp add: t_def)
  have m2: "m \<le> 2 * P" using p(2) by (simp add: P_def)
  have "t * P + m < 2047 * P"
  proof (cases "t = 2045")
    case True
    have "n \<le> (2 ^ 53 - 1) * (d * 2 ^ t)" using n by (simp add: maxUnits_def True algebra_simps)
    then have "m \<le> 2 ^ 53 - 1" unfolding m_def using d by (intro rne_le) simp_all
    then have "m < 2 * P" by (simp add: P_def)
    with True show ?thesis by simp
  next
    case False
    with t have "t \<le> 2044" by simp
    then have "t * P \<le> 2044 * P" by (rule mult_le_mono1)
    with m2 show ?thesis by (simp add: P_def)
  qed
  then show ?thesis by (simp add: p(1) P_def)
qed

lemma units_le_max:
  assumes "finite64 f"
  shows "units f \<le> maxUnits"
proof -
  have e: "exponent f < 2048"
    by (simp add: exponent_unat)
  have "exponent f \<noteq> 2047"
    using assms by (auto simp: finite64_def IsInf_def IsNaN_def)
  with e have e: "exponent f \<le> 2046" by simp
  have f: "fraction f \<le> 2 ^ 52 - 1" by (simp add: fraction_unat)
  show ?thesis
  proof (cases "exponent f = 0")
    case True
    have "(2::nat) ^ 52 - 1 \<le> (2 ^ 53 - 1) * 1" by simp
    also have "\<dots> \<le> (2 ^ 53 - 1) * 2 ^ 2045" by (rule mult_le_mono2) simp
    finally show ?thesis using True f by (simp add: units_def maxUnits_def del: One_nat_def)
  next
    case False
    have "2 ^ 52 + fraction f \<le> 2 ^ 53 - 1" using f by simp
    moreover have "(2::nat) ^ (exponent f - 1) \<le> 2 ^ 2045"
      using e by (intro power_increasing) simp_all
    ultimately have "(2 ^ 52 + fraction f) * 2 ^ (exponent f - 1) \<le> (2 ^ 53 - 1) * 2 ^ 2045"
      by (rule mult_le_mono)
    with False show ?thesis by (simp only: units_def maxUnits_def if_False)
  qed
qed

subsection \<open>Multiplying and dividing by a factor\<close>

lemma error_chain:
  fixes X P Q k :: real
  assumes k: "1 \<le> k" and X: "1 \<le> X"
    and P: "\<bar>P - X * k\<bar> \<le> X * k / 2 ^ 53 + 1 / 2"
    and Q: "\<bar>Q - P / k\<bar> \<le> P / k / 2 ^ 53 + 1 / 2"
  shows "\<bar>Q - X\<bar> \<le> X / 2 ^ 51 + 1"
proof -
  have kp: "0 < k" using k by simp
  have "\<bar>P / k - X\<bar> = \<bar>P - X * k\<bar> / k"
    using kp by (simp add: field_simps abs_divide)
  also have "\<dots> \<le> (X * k / 2 ^ 53 + 1 / 2) / k"
    using P kp by (simp add: divide_right_mono)
  also have "\<dots> = X / 2 ^ 53 + 1 / (2 * k)"
    using kp by (simp add: field_simps)
  also have "\<dots> \<le> X / 2 ^ 53 + 1 / 2"
    using k by (simp add: field_simps)
  finally have b: "\<bar>P / k - X\<bar> \<le> X / 2 ^ 53 + 1 / 2" .
  from b Q X show ?thesis by (simp add: abs_le_iff)
qed

lemma roundBits_zero: "0 < d \<Longrightarrow> roundBits 0 d = 0"
  by (simp add: roundBits_def rne_def bitlen.simps)

lemma negzero_fields:
  "exponent 0x8000000000000000 = 0" "fraction 0x8000000000000000 = 0"
  "signbit 0x8000000000000000"
  by (simp_all add: exponent_def fraction_def signbit_def)

lemma unity_pos: "0 < unity"
  by (simp add: unity_def)

lemma valof_nonneg_signbit:
  assumes "0 \<le> valof x" and "signbit x"
  shows "units x = 0"
  using assms unity_pos by (simp add: valof_def magnitude_def divide_le_0_iff)

lemma mul_div_recovers:
  assumes c: "finite64 c" "\<not> signbit c" "unity \<le> units c"
    and x: "finite64 x" "0 \<le> valof x"
    and p: "finite64 (FloatMul x c)"
  shows "finite64 (FloatDiv (FloatMul x c) c)
         \<and> \<bar>valof (FloatDiv (FloatMul x c) c) - valof x\<bar> \<le> valof x / 2 ^ 51 + 1 / real unity"
proof (cases "signbit x")
  case True
  with x have X: "units x = 0" by (simp add: valof_nonneg_signbit)
  from c unity_pos have Nc: "0 < units c" by simp
  have m: "FloatMul x c = 0x8000000000000000"
    using c x True X unity_pos
    by (simp add: FloatMul_def finite64_def fround_def withSign_def roundBits_zero)
  have d: "FloatDiv 0x8000000000000000 c = 0x8000000000000000"
    using c Nc
    by (simp add: FloatDiv_def finite64_def fround_def withSign_def roundBits_zero
        IsNaN_def IsInf_def negzero_fields units_def)
  show ?thesis
    using X by (simp add: m d finite64_def IsNaN_def IsInf_def negzero_fields valof_def
        magnitude_def units_def)
next
  case False
  define X where "X = units x"
  define Nc where "Nc = units c"
  define P where "P = units (FloatMul x c)"
  define Q where "Q = units (FloatDiv (FloatMul x c) c)"
  have up: "0 < unity" by (rule unity_pos)
  from c up have Nc: "0 < Nc" "unity \<le> Nc" by (simp_all add: Nc_def)
  have m: "FloatMul x c = fround False (X * Nc) unity"
    using c x False by (simp add: FloatMul_def finite64_def X_def Nc_def)
  have rb: "roundBits (X * Nc) unity < 2047 * 2 ^ 52"
    using p Infinity_not_finite fround_overflow [of "X * Nc" unity] unfolding m by metis
  note pf = fround_finite [OF up rb, folded m]
  have d: "FloatDiv (FloatMul x c) c = fround False (P * unity) Nc"
    using c pf(1,2) Nc by (simp add: FloatDiv_def finite64_def P_def Nc_def)
  have "P \<le> maxUnits" unfolding P_def by (rule units_le_max [OF pf(1)])
  then have "P * unity \<le> maxUnits * Nc" using Nc(2) by (rule mult_le_mono)
  then have rb2: "roundBits (P * unity) Nc < 2047 * 2 ^ 52"
    by (rule roundBits_no_overflow [OF Nc(1)])
  note qf = fround_finite [OF Nc(1) rb2, folded d]
  have eP: "\<bar>real P - real (X * Nc) / real unity\<bar> \<le> real (X * Nc) / real unity / 2 ^ 53 + 1 / 2"
    using pf(3) by (simp only: P_def)
  have eQ: "\<bar>real Q - real (P * unity) / real Nc\<bar> \<le> real (P * unity) / real Nc / 2 ^ 53 + 1 / 2"
    using qf(3) by (simp only: Q_def)
  define k where "k = real Nc / real unity"
  have k: "1 \<le> k" using Nc up by (simp add: k_def)
  have a: "real (X * Nc) / real unity = real X * k" by (simp add: k_def)
  have b: "real (P * unity) / real Nc = real P / k" using up Nc by (simp add: k_def)
  have err: "\<bar>real Q - real X\<bar> \<le> real X / 2 ^ 51 + 1"
  proof (cases "X = 0")
    case True
    with eP have "\<bar>real P\<bar> \<le> 1 / 2" by simp
    then have P0: "P = 0" by simp
    with eQ have "\<bar>real Q\<bar> \<le> 1 / 2" by simp
    then have "Q = 0" by simp
    with True show ?thesis by simp
  next
    case False
    then have "1 \<le> real X" by simp
    from error_chain [OF k this eP [unfolded a] eQ [unfolded b]] show ?thesis .
  qed
  have vx: "valof x = real X / real unity"
    using False by (simp add: valof_def magnitude_def X_def)
  have vq: "valof (FloatDiv (FloatMul x c) c) = real Q / real unity"
    using qf(2) by (simp add: valof_def magnitude_def Q_def)
  have "\<bar>real Q / real unity - real X / real unity\<bar> = \<bar>real Q - real X\<bar> / real unity"
    using up by (simp add: diff_divide_distrib [symmetric] abs_divide del: of_nat_diff)
  also have "\<dots> \<le> (real X / 2 ^ 51 + 1) / real unity"
    using err up by (simp add: divide_right_mono)
  also have "\<dots> = real X / real unity / 2 ^ 51 + 1 / real unity"
    by (simp add: add_divide_distrib)
  finally show ?thesis using qf(1) by (simp only: vx vq simp_thms)
qed

subsection \<open>The two factors\<close>

lemma roundBits_overflow:
  assumes d: "0 < d" and lo: "2 ^ 2099 * d \<le> n"
  shows "\<not> roundBits n d < 2047 * 2 ^ 52"
proof -
  from lo d have "2 ^ 2099 \<le> n div d" by (simp add: less_eq_div_iff_mult_less_eq)
  with bitlen_less [of "n div d"] have "(2::nat) ^ 2099 < 2 ^ bitlen (n div d)" by simp
  then have "2099 < bitlen (n div d)" by (simp only: power_strict_increasing_iff one_less_numeral_iff semiring_norm)
  then have "2047 \<le> bitlen (n div d) - 53" by simp
  then have "2047 * 2 ^ 52 \<le> (bitlen (n div d) - 53) * 2 ^ 52" by (rule mult_le_mono1)
  then show ?thesis by (simp add: roundBits_def Let_def)
qed

lemma special_not_finite:
  "\<not> finite64 NaN" "\<not> finite64 (withSign s Infinity)"
  by (cases s; simp add: finite64_def IsInf_def IsNaN_def exponent_def fraction_def NaN_def
      Infinity_def withSign_def)+

lemma FloatMul_finite_arg:
  assumes "finite64 (FloatMul x c)"
  shows "finite64 x"
proof (rule ccontr)
  assume "\<not> finite64 x"
  then have "FloatMul x c = NaN \<or> FloatMul x c = withSign (signbit x \<noteq> signbit c) Infinity"
    by (auto simp: FloatMul_def finite64_def)
  with assms special_not_finite show False by metis
qed

lemma FloatMul_finite:
  assumes "finite64 x" "\<not> signbit x" "finite64 c" "\<not> signbit c"
    and "units x * units c \<le> maxUnits * unity"
  shows "finite64 (FloatMul x c)"
proof -
  have "FloatMul x c = fround False (units x * units c) unity"
    using assms(1-4) by (simp add: FloatMul_def finite64_def)
  moreover have "roundBits (units x * units c) unity < 2047 * 2 ^ 52"
    using unity_pos assms(5) by (rule roundBits_no_overflow)
  ultimately show ?thesis using fround_finite(1) [OF unity_pos] by simp
qed

lemma FloatMul_overflow:
  assumes "finite64 x" "\<not> signbit x" "finite64 c" "\<not> signbit c"
    and "2 ^ 2099 * unity \<le> units x * units c"
  shows "FloatMul x c = Infinity"
proof -
  have "FloatMul x c = fround False (units x * units c) unity"
    using assms(1-4) by (simp add: FloatMul_def finite64_def)
  moreover have "\<not> roundBits (units x * units c) unity < 2047 * 2 ^ 52"
    using unity_pos assms(5) by (rule roundBits_overflow)
  ultimately show ?thesis by (simp add: fround_overflow)
qed

lemma factors:
  "finite64 mmPerInch" "\<not> signbit mmPerInch" "unity \<le> units mmPerInch"
  "finite64 gramsPerPound" "\<not> signbit gramsPerPound" "unity \<le> units gramsPerPound"
  by (simp_all add: mmPerInch_def gramsPerPound_def finite64_def IsInf_def IsNaN_def
      exponent_def fraction_def signbit_def units_def unity_def)

lemma factors_denote: "denotes 25.4 mmPerInch" "denotes 453.592 gramsPerPound"
  by (simp_all add: mmPerInch_def gramsPerPound_def denotes_def finite64_def IsInf_def
      IsNaN_def exponent_def fraction_def signbit_def valof_def magnitude_def units_def
      unity_def)

lemma maxFloat: "finite64 0x7FEFFFFFFFFFFFFF" "\<not> signbit 0x7FEFFFFFFFFFFFFF"
  "2 ^ 2099 * unity \<le> units 0x7FEFFFFFFFFFFFFF * units mmPerInch"
  by (simp_all add: mmPerInch_def finite64_def IsInf_def IsNaN_def
      exponent_def fraction_def signbit_def units_def unity_def)

lemma ten: "finite64 0x4024000000000000" "\<not> signbit 0x4024000000000000"
  "units 0x4024000000000000 * units mmPerInch \<le> maxUnits * unity"
  "units 0x4024000000000000 * units gramsPerPound \<le> maxUnits * unity"
  "valof 0x4024000000000000 = 10"
  by (simp_all add: mmPerInch_def gramsPerPound_def finite64_def IsInf_def IsNaN_def
      exponent_def fraction_def signbit_def units_def unity_def maxUnits_def valof_def
      magnitude_def)

section \<open>The test environment evaluated\<close>

lemma testEnv_fields:
  "formatFloat (testEnv outcome) = (\<lambda>f. case map_of testFloats f of Some s \<Rightarrow> s | None \<Rightarrow> ''0'')"
  "writeJSON (testEnv outcome) = compact"
  "readJSON (testEnv outcome) = (\<lambda>b. if b = testRequestJSON then Inr testRequestTree else Inl endOfInput)"
  "UnmarshalResponse (testEnv outcome) = testDecoder"
  "newRequestError (testEnv outcome) = (\<lambda>ctx method url. None)"
  "roundTrip (testEnv outcome) = (\<lambda>h req. outcome)"
  by (simp_all add: testEnv_def)

lemma softError_not_fixture: "softErrorJSON \<noteq> testResponseJSON"
  by (simp add: softErrorJSON_def testResponseJSON_def)

lemma empty_not_fixture: "''{}'' \<noteq> testResponseJSON"
  by (simp add: testResponseJSON_def)

lemma truncated_not_fixture: "truncatedJSON \<noteq> testResponseJSON"
  by (simp add: truncatedJSON_def testResponseJSON_def)

lemma testDecoder_simps:
  "testDecoder testResponseJSON = Inr testResponse"
  "testDecoder softErrorJSON = Inr softErrorResponse"
  "testDecoder ''{}'' = Inr zeroResponse"
  "testDecoder truncatedJSON = Inl endOfInput"
     apply (simp add: testDecoder_def)
    apply (simp add: testDecoder_def softError_not_fixture)
   apply (simp add: testDecoder_def empty_not_fixture softErrorJSON_def)
  apply (simp add: testDecoder_def truncated_not_fixture)
  apply (simp add: truncatedJSON_def softErrorJSON_def)
  done

lemma showInt_1: "showInt 1 = ''1''"
  by code_simp

lemma showInt_400: "showInt 400 = ''400''"
  by code_simp

lemma showInt_500: "showInt 500 = ''500''"
  by code_simp

lemma encode_testRequest: "encodeRequest (testEnv outcome) testRequest = Inr testRequestTree"
  by (simp add: encodeRequest_def sliceEncoder_def encodeCarton_def encodeConstraints_def
      encodeOptions_def structEncoder_def floatEncoder_def intEncoder_def boolEncoder_def
      stringEncoder_def testRequest_def StandardPallet_def testEnv_fields testFloats_def
      IsInf_def IsNaN_def exponent_def fraction_def testRequestTree_def showInt_1
      runeLen.simps between_def)

lemma compact_testRequestTree: "compact testRequestTree = testRequestJSON"
  by (simp add: testRequestTree_def testRequestJSON_def quote_def)

lemma Marshal_testRequest: "Marshal (testEnv outcome) (Some testRequest) = Inr testRequestJSON"
  by (simp add: Marshal_def encode_testRequest testEnv_fields compact_testRequestTree)

lemma finite_testRequest: "finiteRequest testRequest"
  by (simp add: finiteRequest_def floats_def cartonFloats_def testRequest_def
      StandardPallet_def finite64_def IsInf_def IsNaN_def exponent_def fraction_def)

lemma valid_testRequest: "validRequest testRequest"
  by (simp add: validRequest_def finite_testRequest)
     (simp add: ids_def testRequest_def runeLen.simps between_def)

lemma parse_testFloats:
  "\<forall>f \<in> set (floats testRequest).
     parseFloat (testEnv outcome) (formatFloat (testEnv outcome) f) = Inr f"
  by (simp add: floats_def cartonFloats_def testRequest_def StandardPallet_def testEnv_def
      testFloats_def)

lemma Marshal_nanRequest:
  "Marshal (testEnv outcome) (Some nanRequest) = Inl (UnsupportedValueError ''NaN'')"
  by (simp add: Marshal_def nanRequest_def encodeRequest_def sliceEncoder_def encodeCarton_def
      encodeConstraints_def encodeOptions_def structEncoder_def floatEncoder_def
      intEncoder_def boolEncoder_def stringEncoder_def testRequest_def StandardPallet_def
      specialText_def IsInf_def IsNaN_def exponent_def fraction_def)

section \<open>Pack after the round trip\<close>

text \<open>What \<open>Pack\<close> returns once a response was received and its body read.\<close>

lemma Pack_exchange:
  "Marshal env request = Inr jsonData \<Longrightarrow>
   newRequestError env ctx ''POST'' (baseURL c @ ''/api/v1/pack'') = None \<Longrightarrow>
   roundTrip env (httpClient c) (packRequest c ctx jsonData) = Inr resp \<Longrightarrow>
   Response.Body resp = Inr body \<Longrightarrow>
   Pack env c ctx request =
     ((case UnmarshalResponse env body of
         Inl err \<Rightarrow> (None, Some (Errorf_w ''failed to parse response: '' err))
       | Inr response \<Rightarrow>
           if StatusCode resp \<noteq> StatusOK then
             if Error response \<noteq> [] then
               (None, Some (errorString
                  (''API error (status '' @ showInt (sint (StatusCode resp)) @ ''): ''
                   @ Error response)))
             else
               (None, Some (errorString
                  (''API returned status '' @ showInt (sint (StatusCode resp)) @ '': ''
                   @ body)))
           else (Some response, None)),
      [NewRequestCall ''POST'' (baseURL c @ ''/api/v1/pack''),
       DoCall (packRequest c ctx jsonData), ReadAllCall, CloseCall])"
  by (simp add: Pack_def NewRequestWithContext_def Header_Set_def packRequest_def Let_def
      split: sum.splits)

text \<open>
  \<open>TestPack\<close>: against the mock server, \<open>Pack\<close> returns the response of the fixture
  and no error, as the test expects.
\<close>

lemma TestPack:
  "fst (Pack (server 200 testResponseJSON) testClient () (Some testRequest))
     = (Some testResponse, None)
   \<and> TotalPallets (Summary testResponse) = 1
   \<and> TotalCartonsPacked (Summary testResponse) = 1
   \<and> map_option length (Pallets testResponse) = Some 1"
proof -
  have "Pack (server 200 testResponseJSON) testClient () (Some testRequest)
          = ((Some testResponse, None),
             [NewRequestCall ''POST'' (baseURL testClient @ ''/api/v1/pack''),
              DoCall (packRequest testClient () testRequestJSON), ReadAllCall, CloseCall])"
    unfolding server_def
    by (subst Pack_exchange [where jsonData = testRequestJSON and body = testResponseJSON
          and resp = "\<lparr>StatusCode = 200, Body = Inr testResponseJSON\<rparr>"])
       (simp_all add: Marshal_testRequest testEnv_fields testDecoder_simps StatusOK_def)
  then show ?thesis by (simp add: testResponse_def)
qed

section \<open>The claims\<close>

text \<open>
  C1. If the HTTP status is OK (200) and the body of the response decodes as a
  \<open>PackingResponse\<close>, \<open>Pack\<close> returns the decoded response and a nil error. Nothing is
  assumed of the \<open>error\<close> field of the response: a soft error embedded in it is never
  turned into a failure of \<open>Pack\<close>.
\<close>

theorem Pack_ok_returns_decoded:
  assumes "Marshal env request = Inr jsonData"
    and "newRequestError env ctx ''POST'' (baseURL c @ ''/api/v1/pack'') = None"
    and "roundTrip env (httpClient c) (packRequest c ctx jsonData) = Inr resp"
    and "StatusCode resp = StatusOK"
    and "Response.Body resp = Inr body"
    and "UnmarshalResponse env body = Inr response"
  shows "fst (Pack env c ctx request) = (Some response, None)"
  using assms
  by (simp add: Pack_def NewRequestWithContext_def Header_Set_def packRequest_def Let_def)

theorem Pack_ok_returns_decoded_witness:
  "fst (Pack (server 200 softErrorJSON) testClient () (Some testRequest))
     = (Some softErrorResponse, None)
   \<and> Error softErrorResponse = ''carton too large''"
  using Pack_ok_returns_decoded [where env = "server 200 softErrorJSON"
      and request = "Some testRequest" and jsonData = testRequestJSON and ctx = "()"
      and c = testClient and resp = "\<lparr>StatusCode = 200, Body = Inr softErrorJSON\<rparr>"
      and body = softErrorJSON and response = softErrorResponse]
  by (simp add: server_def Marshal_testRequest testEnv_fields testDecoder_simps StatusOK_def
        softErrorResponse_def)

text \<open>
  C2. If the HTTP status is not OK (200) and the body of the response decodes as a
  \<open>PackingResponse\<close>, \<open>Pack\<close> returns a nil response and an error whose message holds
  the status code and, when the decoded \<open>error\<close> field is not empty, the text of that
  field; when it is empty, the message holds the raw body instead.
\<close>

theorem Pack_bad_status:
  assumes "Marshal env request = Inr jsonData"
    and "newRequestError env ctx ''POST'' (baseURL c @ ''/api/v1/pack'') = None"
    and "roundTrip env (httpClient c) (packRequest c ctx jsonData) = Inr resp"
    and "StatusCode resp \<noteq> StatusOK"
    and "Response.Body resp = Inr body"
    and "UnmarshalResponse env body = Inr response"
  shows "fst (Pack env c ctx request) =
           (None,
            Some (errorString
              (if Error response \<noteq> []
               then ''API error (status '' @ showInt (sint (StatusCode resp)) @ ''): ''
                    @ Error response
               else ''API returned status '' @ showInt (sint (StatusCode resp)) @ '': ''
                    @ body)))"
  using assms
  by (simp add: Pack_def NewRequestWithContext_def Header_Set_def packRequest_def Let_def)

theorem Pack_bad_status_witness:
  "fst (Pack (server 400 softErrorJSON) testClient () (Some testRequest))
     = (None, Some (errorString ''API error (status 400): carton too large''))
   \<and> fst (Pack (server 500 ''{}'') testClient () (Some testRequest))
     = (None, Some (errorString ''API returned status 500: {}''))"
  using Pack_bad_status [where env = "server 400 softErrorJSON"
      and request = "Some testRequest" and jsonData = testRequestJSON and ctx = "()"
      and c = testClient and resp = "\<lparr>StatusCode = 400, Body = Inr softErrorJSON\<rparr>"
      and body = softErrorJSON and response = softErrorResponse]
    Pack_bad_status [where env = "server 500 ''{}''"
      and request = "Some testRequest" and jsonData = testRequestJSON and ctx = "()"
      and c = testClient and resp = "\<lparr>StatusCode = 500, Body = Inr ''{}''\<rparr>"
      and body = "''{}''" and response = zeroResponse]
  by (simp add: server_def Marshal_testRequest testEnv_fields testDecoder_simps StatusOK_def
        softErrorResponse_def zeroResponse_def showInt_400 showInt_500)

text \<open>
  C3, as the code has it. For every HTTP response received, \<open>Pack\<close> reads the full
  body, whatever the status code: its trace is the construction of the request, the
  round trip, the read of the body and its close. If the body is read and does not
  decode as a \<open>PackingResponse\<close>, \<open>Pack\<close> returns, again whatever the status code, a
  nil response and the error that wraps the decoder's error, with the message
  \<open>failed to parse response: \<close> followed by the decoder's message. The raw body is not
  put into that error.
\<close>

theorem Pack_reads_and_parses:
  assumes "Marshal env request = Inr jsonData"
    and "newRequestError env ctx ''POST'' (baseURL c @ ''/api/v1/pack'') = None"
    and "roundTrip env (httpClient c) (packRequest c ctx jsonData) = Inr resp"
  shows "snd (Pack env c ctx request) =
           [NewRequestCall ''POST'' (baseURL c @ ''/api/v1/pack''),
            DoCall (packRequest c ctx jsonData), ReadAllCall, CloseCall]
         \<and> (\<forall>body err.
               Response.Body resp = Inr body \<longrightarrow> UnmarshalResponse env body = Inl err \<longrightarrow>
               fst (Pack env c ctx request) =
                 (None, Some (wrapError (''failed to parse response: '' @ error_message err) err)))"
  using assms
  by (simp add: Pack_def NewRequestWithContext_def Header_Set_def packRequest_def
        Errorf_w_def Let_def split: sum.splits)

theorem Pack_reads_and_parses_witness:
  "snd (Pack (server 500 truncatedJSON) testClient () (Some testRequest)) =
     [NewRequestCall ''POST'' ''http://127.0.0.1:8080/api/v1/pack'',
      DoCall (packRequest testClient () testRequestJSON), ReadAllCall, CloseCall]
   \<and> fst (Pack (server 500 truncatedJSON) testClient () (Some testRequest)) =
     (None, Some (wrapError ''failed to parse response: unexpected end of JSON input''
                    endOfInput))"
  using Pack_reads_and_parses [where env = "server 500 truncatedJSON"
      and request = "Some testRequest" and jsonData = testRequestJSON and ctx = "()"
      and c = testClient and resp = "\<lparr>StatusCode = 500, Body = Inr truncatedJSON\<rparr>"]
  by (simp add: server_def Marshal_testRequest testEnv_fields testDecoder_simps
        endOfInput_def testClient_def NewWithEndpoint_def)

text \<open>
  C3, as the specification states it, fails: the server answers 200 with a document cut
  short, the decoder reports the end of the input, and the error that \<open>Pack\<close> returns
  carries the decoder's message, but nowhere the raw body.
\<close>

theorem Pack_parse_error_omits_body:
  "UnmarshalResponse (server 200 truncatedJSON) truncatedJSON = Inl endOfInput
   \<and> fst (Pack (server 200 truncatedJSON) testClient () (Some testRequest)) =
       (None, Some (wrapError ''failed to parse response: unexpected end of JSON input''
                      endOfInput))
   \<and> \<not> carries (wrapError ''failed to parse response: unexpected end of JSON input''
                  endOfInput) truncatedJSON"
proof -
  have "Pack (server 200 truncatedJSON) testClient () (Some testRequest)
          = ((None, Some (Errorf_w ''failed to parse response: '' endOfInput)),
             [NewRequestCall ''POST'' (baseURL testClient @ ''/api/v1/pack''),
              DoCall (packRequest testClient () testRequestJSON), ReadAllCall, CloseCall])"
    unfolding server_def
    by (subst Pack_exchange [where jsonData = testRequestJSON and body = truncatedJSON
          and resp = "\<lparr>StatusCode = 200, Body = Inr truncatedJSON\<rparr>"])
       (simp_all add: Marshal_testRequest testEnv_fields testDecoder_simps)
  moreover have "\<not> carries (wrapError ''failed to parse response: unexpected end of JSON input''
                  endOfInput) truncatedJSON"
    by (simp add: endOfInput_def truncatedJSON_def)
  ultimately show ?thesis
    by (simp add: server_def testEnv_fields testDecoder_simps Errorf_w_def endOfInput_def)
qed

text \<open>
  C4. If the JSON serialisation of the request fails, \<open>Pack\<close> returns a nil response and
  the error that wraps the encoder's error, before any network activity: its trace is
  empty, so no HTTP request was constructed and none was sent.
\<close>

theorem Pack_marshal_failure:
  assumes "Marshal env request = Inl err"
  shows "Pack env c ctx request =
           ((None, Some (wrapError (''failed to marshal request: '' @ error_message err) err)), [])"
  using assms by (simp add: Pack_def Errorf_w_def)

theorem Pack_marshal_failure_witness:
  "Pack (server 200 testResponseJSON) testClient () (Some nanRequest) =
     ((None, Some (wrapError ''failed to marshal request: json: unsupported value: NaN''
                     (UnsupportedValueError ''NaN''))), [])"
  using Pack_marshal_failure [where env = "server 200 testResponseJSON"
      and request = "Some nanRequest" and err = "UnsupportedValueError ''NaN''"
      and c = testClient and ctx = "()"]
  by (simp add: server_def Marshal_nanRequest)

text \<open>
  C5, as the code has it. Every invocation of \<open>Pack\<close> hands at most one request to the
  network. When the serialisation and the construction of the request succeed, it hands
  exactly one: a POST to \<open><base>/api/v1/pack\<close> with the header
  \<open>Content-Type: application/json\<close> and the serialised request as its body. If that
  call fails, \<open>Pack\<close> returns a nil response and the error that wraps the transport's
  error, with the message \<open>failed to send request: \<close> followed by the transport's
  message, and no second request is sent.
\<close>

theorem Pack_single_request:
  "length (sent (snd (Pack env c ctx request))) \<le> 1
   \<and> (\<forall>jsonData.
         Marshal env request = Inr jsonData \<longrightarrow>
         newRequestError env ctx ''POST'' (baseURL c @ ''/api/v1/pack'') = None \<longrightarrow>
         sent (snd (Pack env c ctx request)) = [packRequest c ctx jsonData]
         \<and> (\<forall>err.
               roundTrip env (httpClient c) (packRequest c ctx jsonData) = Inl err \<longrightarrow>
               fst (Pack env c ctx request) =
                 (None, Some (wrapError (''failed to send request: '' @ error_message err) err))))"
  by (simp add: Pack_def NewRequestWithContext_def Header_Set_def packRequest_def
        Errorf_w_def Let_def split: sum.splits option.splits)

theorem Pack_single_request_witness:
  "sent (snd (Pack (testEnv (Inl (LibraryError ''connection refused''))) testClient ()
            (Some testRequest)))
     = [packRequest testClient () testRequestJSON]
   \<and> fst (Pack (testEnv (Inl (LibraryError ''connection refused''))) testClient ()
            (Some testRequest))
     = (None, Some (wrapError ''failed to send request: connection refused''
                      (LibraryError ''connection refused'')))"
  using Pack_single_request [where env = "testEnv (Inl (LibraryError ''connection refused''))"
      and request = "Some testRequest" and ctx = "()" and c = testClient]
  by (simp add: Marshal_testRequest testEnv_fields)

text \<open>
  C5, as the specification states it, fails: an invocation whose request does not
  serialise hands no request to the network at all.
\<close>

theorem Pack_no_request_sent:
  "sent (snd (Pack (server 200 testResponseJSON) testClient () (Some nanRequest))) = []"
  by (simp add: Pack_def Marshal_nanRequest server_def)

text \<open>
  C6. The preset builders return the fixed values that the specification states: each
  field of \<open>StandardPallet\<close> and of \<open>StandardPallet4048\<close> is the \<open>float64\<close> that the
  stated decimal denotes, and the fields go on the wire under the names \<open>max_length\<close>,
  \<open>max_width\<close>, \<open>max_height\<close> and \<open>max_weight\<close>.
\<close>

theorem presets_exact:
  "denotes 1016.0 (MaxLength StandardPallet) \<and>
   denotes 1828.8 (MaxWidth StandardPallet) \<and>
   denotes 1219.2 (MaxHeight StandardPallet) \<and>
   denotes 680388.0 (MaxWeight StandardPallet) \<and>
   denotes 1016.0 (MaxLength StandardPallet4048) \<and>
   denotes 1219.2 (MaxWidth StandardPallet4048) \<and>
   denotes 1219.2 (MaxHeight StandardPallet4048) \<and>
   denotes 680388.0 (MaxWeight StandardPallet4048) \<and>
   encodeConstraints env StandardPallet =
     Inr (JObject
       [(''max_length'', JNumber (formatFloat env (MaxLength StandardPallet))),
        (''max_width'', JNumber (formatFloat env (MaxWidth StandardPallet))),
        (''max_height'', JNumber (formatFloat env (MaxHeight StandardPallet))),
        (''max_weight'', JNumber (formatFloat env (MaxWeight StandardPallet)))]) \<and>
   encodeConstraints env StandardPallet4048 =
     Inr (JObject
       [(''max_length'', JNumber (formatFloat env (MaxLength StandardPallet4048))),
        (''max_width'', JNumber (formatFloat env (MaxWidth StandardPallet4048))),
        (''max_height'', JNumber (formatFloat env (MaxHeight StandardPallet4048))),
        (''max_weight'', JNumber (formatFloat env (MaxWeight StandardPallet4048)))])"
  by (simp add: StandardPallet_def StandardPallet4048_def denotes_def finite64_def IsInf_def
      IsNaN_def exponent_def fraction_def valof_def magnitude_def signbit_def units_def
      unity_def encodeConstraints_def structEncoder_def floatEncoder_def)

text \<open>
  C7, as the code has it. The helpers multiply and divide by the \<open>float64\<close> factors that
  25.4 and 453.592 denote. For every non-negative \<open>x\<close> whose product \<open>InchesToMM x\<close> is
  finite, \<open>MMToInches (InchesToMM x)\<close> is finite and differs from \<open>x\<close> by at most
  \<open>x / 2 ^ 51\<close> and one unit of the smallest \<open>float64\<close>; the same holds of
  \<open>GramsToPounds (PoundsToGrams x)\<close> whenever \<open>PoundsToGrams x\<close> is finite.
\<close>

theorem conversions_recover:
  "(0 \<le> valof x \<and> finite64 (InchesToMM x) \<longrightarrow>
      finite64 (MMToInches (InchesToMM x)) \<and>
      \<bar>valof (MMToInches (InchesToMM x)) - valof x\<bar> \<le> valof x / 2 ^ 51 + 1 / real unity)
   \<and> (0 \<le> valof x \<and> finite64 (PoundsToGrams x) \<longrightarrow>
      finite64 (GramsToPounds (PoundsToGrams x)) \<and>
      \<bar>valof (GramsToPounds (PoundsToGrams x)) - valof x\<bar> \<le> valof x / 2 ^ 51 + 1 / real unity)
   \<and> denotes 25.4 mmPerInch \<and> denotes 453.592 gramsPerPound"
  unfolding InchesToMM_def MMToInches_def PoundsToGrams_def GramsToPounds_def
  using mul_div_recovers [OF factors(1-3) FloatMul_finite_arg, of x]
    mul_div_recovers [OF factors(4-6) FloatMul_finite_arg, of x]
    factors_denote
  by blast

theorem conversions_recover_witness:
  "0 \<le> valof 0x4024000000000000
   \<and> finite64 (InchesToMM 0x4024000000000000)
   \<and> finite64 (MMToInches (InchesToMM 0x4024000000000000))
   \<and> \<bar>valof (MMToInches (InchesToMM 0x4024000000000000)) - 10\<bar> \<le> 10 / 2 ^ 51 + 1 / real unity
   \<and> finite64 (PoundsToGrams 0x4024000000000000)
   \<and> finite64 (GramsToPounds (PoundsToGrams 0x4024000000000000))
   \<and> \<bar>valof (GramsToPounds (PoundsToGrams 0x4024000000000000)) - 10\<bar>
       \<le> 10 / 2 ^ 51 + 1 / real unity"
proof -
  have i: "finite64 (InchesToMM 0x4024000000000000)"
    unfolding InchesToMM_def by (rule FloatMul_finite [OF ten(1,2) factors(1,2) ten(3)])
  have p: "finite64 (PoundsToGrams 0x4024000000000000)"
    unfolding PoundsToGrams_def by (rule FloatMul_finite [OF ten(1,2) factors(4,5) ten(4)])
  from conversions_recover [of "0x4024000000000000"] i p show ?thesis
    by (simp only: ten(5)) simp
qed

text \<open>
  C7, as the specification states it, fails: the largest finite \<open>float64\<close> is not
  negative, its product with 25.4 is beyond the largest \<open>float64\<close>, so \<open>InchesToMM\<close>
  gives infinity and \<open>MMToInches\<close> gives infinity back, which is within no tolerance
  of the argument.
\<close>

theorem conversion_overflows:
  "0 \<le> valof 0x7FEFFFFFFFFFFFFF
   \<and> finite64 0x7FEFFFFFFFFFFFFF
   \<and> MMToInches (InchesToMM 0x7FEFFFFFFFFFFFFF) = Infinity
   \<and> \<not> finite64 Infinity"
proof -
  have "InchesToMM 0x7FEFFFFFFFFFFFFF = Infinity"
    unfolding InchesToMM_def by (rule FloatMul_overflow [OF maxFloat(1,2) factors(1,2) maxFloat(3)])
  moreover have "MMToInches Infinity = Infinity"
    using factors(1)
    by (simp add: MMToInches_def FloatDiv_def finite64_def withSign_def)
       (simp add: Infinity_def mmPerInch_def IsInf_def IsNaN_def exponent_def fraction_def
          signbit_def)
  moreover have "0 \<le> valof 0x7FEFFFFFFFFFFFFF"
    using maxFloat(2) by (simp add: valof_def magnitude_def)
  ultimately show ?thesis
    using maxFloat(1) Infinity_not_finite by simp
qed

text \<open>
  C8. For every valid request (no \<open>float64\<close> field infinite or not a number, every
  identifier well-formed UTF-8), serialising it to JSON and deserialising the resulting
  document gives back the request: every field of every carton, the constraints and the
  options. The text layer of the library is taken at its contract: the literal written
  for each \<open>float64\<close> of the request reads back as that \<open>float64\<close>, and the document
  written scans back to its syntax tree.
\<close>

theorem Marshal_Unmarshal:
  assumes "validRequest r"
    and "\<forall>f \<in> set (floats r). parseFloat env (formatFloat env f) = Inr f"
    and "\<forall>j. encodeRequest env r = Inr j \<longrightarrow> readJSON env (writeJSON env j) = Inr j"
  shows "\<exists>b. Marshal env (Some r) = Inr b \<and> Unmarshal env b = Inr r"
proof -
  from assms(1,2) obtain j where j: "encodeRequest env r = Inr j"
      "decodeRequest env j zeroRequest = Inr r"
    using decode_encode_request by blast
  with assms(3) have "readJSON env (writeJSON env j) = Inr j" by simp
  with j show ?thesis by (simp add: Marshal_def Unmarshal_def)
qed

theorem Marshal_Unmarshal_witness:
  "validRequest testRequest
   \<and> Marshal (server 200 testResponseJSON) (Some testRequest) = Inr testRequestJSON
   \<and> Unmarshal (server 200 testResponseJSON) testRequestJSON = Inr testRequest"
proof -
  let ?env = "testEnv (Inr \<lparr>StatusCode = 200, Body = Inr testResponseJSON\<rparr>)"
  have scan: "\<forall>j. encodeRequest ?env testRequest = Inr j \<longrightarrow>
                readJSON ?env (writeJSON ?env j) = Inr j"
    by (simp add: encode_testRequest testEnv_fields compact_testRequestTree)
  have "\<exists>b. Marshal ?env (Some testRequest) = Inr b \<and> Unmarshal ?env b = Inr testRequest"
    by (rule Marshal_Unmarshal [OF valid_testRequest parse_testFloats scan])
  then show ?thesis
    by (simp add: server_def valid_testRequest Marshal_testRequest)
qed

text \<open>
  C9. On every execution path \<open>Pack\<close> returns either a response with a nil error, and
  then the response is the one that the decoder gave for the body received, whole, or a
  nil response with an error; never a response together with an error, and never
  neither.
\<close>

theorem Pack_result_or_error:
  "(\<exists>response jsonData resp body.
      fst (Pack env c ctx request) = (Some response, None) \<and>
      Marshal env request = Inr jsonData \<and>
      roundTrip env (httpClient c) (packRequest c ctx jsonData) = Inr resp \<and>
      Response.Body resp = Inr body \<and>
      UnmarshalResponse env body = Inr response)
   \<or> (\<exists>err. fst (Pack env c ctx request) = (None, Some err))"
  by (auto simp: Pack_def NewRequestWithContext_def Header_Set_def packRequest_def
        Errorf_w_def Let_def split: sum.splits option.splits)

text \<open>
  C10. For every request whose \<open>float64\<close> fields are all finite, the serialisation
  step of \<open>Pack\<close> succeeds and \<open>Pack\<close> goes on to construct the HTTP request, so the
  branch \<open>failed to marshal request\<close> is not taken. For a request with a field that is
  not finite the serialisation fails and \<open>Pack\<close> stops there; such requests exist.
\<close>

theorem Marshal_succeeds_iff_finite:
  "(finiteRequest r \<longrightarrow>
      (\<exists>b. Marshal env (Some r) = Inr b) \<and> snd (Pack env c ctx (Some r)) \<noteq> [])
   \<and> (\<not> finiteRequest r \<longrightarrow>
      (\<exists>e. Marshal env (Some r) = Inl e) \<and> snd (Pack env c ctx (Some r)) = [])
   \<and> \<not> finiteRequest nanRequest"
proof (intro conjI impI)
  assume "finiteRequest r"
  with Marshal_Inl [of env r] show m: "\<exists>b. Marshal env (Some r) = Inr b"
    by (cases "Marshal env (Some r)") auto
  then show "snd (Pack env c ctx (Some r)) \<noteq> []"
    by (auto simp: Pack_def Let_def split: sum.splits)
next
  assume "\<not> finiteRequest r"
  with Marshal_Inl [of env r] show m: "\<exists>e. Marshal env (Some r) = Inl e" by simp
  then show "snd (Pack env c ctx (Some r)) = []"
    by (auto simp: Pack_def)
next
  show "\<not> finiteRequest nanRequest"
    by (simp add: finiteRequest_def floats_def nanRequest_def nan_not_finite)
qed

theorem Marshal_succeeds_iff_finite_witness:
  "finiteRequest testRequest
   \<and> Marshal (server 200 testResponseJSON) (Some testRequest) = Inr testRequestJSON
   \<and> snd (Pack (server 200 testResponseJSON) testClient () (Some testRequest)) \<noteq> []
   \<and> \<not> finiteRequest nanRequest
   \<and> Marshal (server 200 testResponseJSON) (Some nanRequest)
       = Inl (UnsupportedValueError ''NaN'')
   \<and> snd (Pack (server 200 testResponseJSON) testClient () (Some nanRequest)) = []"
  using Marshal_succeeds_iff_finite [where r = testRequest
      and env = "server 200 testResponseJSON" and c = testClient and ctx = "()"]
    Marshal_succeeds_iff_finite [where r = nanRequest
      and env = "server 200 testResponseJSON" and c = testClient and ctx = "()"]
  by (simp add: server_def finite_testRequest Marshal_testRequest Marshal_nanRequest)

end
